theory Spec2Isabelle
  imports Complex_Main
begin

section \<open>Strings\<close>

text \<open>
  Symbols are read as ASCII text. \<open>upper\<close> and \<open>lower\<close> follow Python's
  \<^verbatim>\<open>str.upper\<close> and \<^verbatim>\<open>str.lower\<close> on that range: the letters
  a-z and A-Z are mapped, every other character is kept.
\<close>

definition upper_char :: "char \<Rightarrow> char" where
  "upper_char c =
     (case map_of (zip ''abcdefghijklmnopqrstuvwxyz'' ''ABCDEFGHIJKLMNOPQRSTUVWXYZ'') c of
        Some d \<Rightarrow> d
      | None \<Rightarrow> c)"

definition lower_char :: "char \<Rightarrow> char" where
  "lower_char c =
     (case map_of (zip ''ABCDEFGHIJKLMNOPQRSTUVWXYZ'' ''abcdefghijklmnopqrstuvwxyz'') c of
        Some d \<Rightarrow> d
      | None \<Rightarrow> c)"

definition upper :: "string \<Rightarrow> string" where
  "upper s = map upper_char s"

definition lower :: "string \<Rightarrow> string" where
  "lower s = map lower_char s"

text \<open>\<^verbatim>\<open>s.split(':')[0]\<close>: the text before the first colon.\<close>

definition before_colon :: "string \<Rightarrow> string" where
  "before_colon s = takeWhile (\<lambda>c. c \<noteq> CHR '':'') s"

text \<open>\<^verbatim>\<open>s.replace("/", "")\<close>.\<close>

definition drop_slash :: "string \<Rightarrow> string" where
  "drop_slash s = filter (\<lambda>c. c \<noteq> CHR ''/'') s"


section \<open>The lock registry and \<open>run\<close>\<close>

text \<open>
  \<^verbatim>\<open>symbol_locks\<close> is a module-level dict from symbol to a \<^verbatim>\<open>threading.Lock\<close>.
  Lock objects live in a store (a list of held flags, the index is the object's identity);
  the dict maps a symbol to the index of its lock. A thread inside \<^verbatim>\<open>run\<close> is at
  one of the statements of lines 47-58:

  \<^item> \<open>At_check\<close>: line 47, \<^verbatim>\<open>if standardized_symbol not in symbol_locks\<close>;
  \<^item> \<open>At_create\<close>: line 48, \<^verbatim>\<open>symbol_locks[standardized_symbol] = threading.Lock()\<close>;
  \<^item> \<open>At_acquire\<close>: line 50, \<^verbatim>\<open>symbol_locks[standardized_symbol].acquire(blocking=False)\<close>;
  \<^item> \<open>In_run_single_symbol\<close>: line 53, inside \<^verbatim>\<open>run_single_symbol\<close>;
  \<^item> \<open>At_release\<close>: line 55, \<^verbatim>\<open>symbol_locks[standardized_symbol].release()\<close>;
  \<^item> \<open>Finished\<close>: \<^verbatim>\<open>run\<close> has returned;
  \<^item> \<open>Crashed\<close>: \<^verbatim>\<open>run\<close> has raised (a missing key, or releasing a lock nobody holds).

  Threads interleave between statements: \<open>step i\<close> lets thread \<open>i\<close> execute the statement
  it is at, and a schedule is the list of thread indices in the order they run.
\<close>

datatype pc = At_check | At_create | At_acquire | In_run_single_symbol | At_release
  | Finished | Crashed

record thread =
  arg :: string
  pc :: pc

record world =
  symbol_locks :: "string \<rightharpoonup> nat"
  locks :: "bool list"
  threads :: "thread list"

definition standardized_symbol :: "thread \<Rightarrow> string" where
  "standardized_symbol t = upper (arg t)"

definition goto :: "nat \<Rightarrow> pc \<Rightarrow> world \<Rightarrow> world" where
  "goto i p w = w\<lparr>threads := (threads w)[i := (threads w ! i)\<lparr>pc := p\<rparr>]\<rparr>"

definition step :: "nat \<Rightarrow> world \<Rightarrow> world" where
  "step i w =
     (if length (threads w) \<le> i then w
      else
        let t = threads w ! i; k = standardized_symbol t in
        case pc t of
          At_check \<Rightarrow>
            (if symbol_locks w k = None then goto i At_create w else goto i At_acquire w)
        | At_create \<Rightarrow>
            goto i At_acquire
              (w\<lparr>symbol_locks := (symbol_locks w)(k \<mapsto> length (locks w)),
                 locks := locks w @ [False]\<rparr>)
        | At_acquire \<Rightarrow>
            (case symbol_locks w k of
               None \<Rightarrow> goto i Crashed w
             | Some l \<Rightarrow>
                 if length (locks w) \<le> l then goto i Crashed w
                 else if locks w ! l then goto i Finished w
                 else goto i In_run_single_symbol (w\<lparr>locks := (locks w)[l := True]\<rparr>))
        | In_run_single_symbol \<Rightarrow> goto i At_release w
        | At_release \<Rightarrow>
            (case symbol_locks w k of
               None \<Rightarrow> goto i Crashed w
             | Some l \<Rightarrow>
                 if length (locks w) \<le> l then goto i Crashed w
                 else if locks w ! l then goto i Finished (w\<lparr>locks := (locks w)[l := False]\<rparr>)
                 else goto i Crashed w)
        | Finished \<Rightarrow> w
        | Crashed \<Rightarrow> w)"

definition schedule :: "nat list \<Rightarrow> world \<Rightarrow> world" where
  "schedule is w = fold step is w"

text \<open>\<open>start args\<close>: the module has just been imported (no lock exists) and one thread per
  element of \<open>args\<close> has called \<^verbatim>\<open>run\<close> with that symbol.\<close>

definition start :: "string list \<Rightarrow> world" where
  "start args =
     \<lparr>symbol_locks = Map.empty, locks = [], threads = map (\<lambda>a. \<lparr>arg = a, pc = At_check\<rparr>) args\<rparr>"

text \<open>The threads that are inside \<^verbatim>\<open>run_single_symbol\<close> for symbol \<open>k\<close>.\<close>

definition processing :: "world \<Rightarrow> string \<Rightarrow> nat list" where
  "processing w k =
     filter (\<lambda>i. pc (threads w ! i) = In_run_single_symbol \<and> standardized_symbol (threads w ! i) = k)
       [0..<length (threads w)]"


section \<open>Open positions: \<^verbatim>\<open>position_details\<close>\<close>

text \<open>
  Python errors that the modelled statements can raise. \<open>Not_finite\<close> is not an exception of
  Python: it marks the inputs on which a quantity or a price leaves the finite doubles (the
  text read, or a sum, is beyond the largest double), where the code goes on with
  \<^verbatim>\<open>inf\<close>. Quantities and prices are reals here, so the snapshot is not built on those
  inputs.
\<close>

datatype py_error = ValueError | TypeError | UnboundLocalError | Not_finite

subsection \<open>Python floats\<close>

text \<open>
  A Python float is an IEEE 754 binary64 number. The finite ones are the reals \<open>n * 2 ^ e\<close>
  with \<open>\<bar>n\<bar> < 2 ^ 53\<close> and \<open>- 1074 \<le> e \<le> 971\<close>; they are modelled as those reals (\<open>0.0\<close> and
  \<open>- 0.0\<close>, which compare equal, are one value). Reading a decimal text and adding two
  floats both give the double nearest to the exact result, ties going to the even
  significand.
\<close>

definition round_to_even :: "real \<Rightarrow> int" where
  "round_to_even x =
     (let f = \<lfloor>x\<rfloor>; r = x - of_int f
      in if r < 1 / 2 then f else if 1 / 2 < r then f + 1 else if even f then f else f + 1)"

text \<open>
  The binary exponent \<open>\<lfloor>log\<^sub>2 a\<rfloor>\<close> of \<open>a \<ge> 0\<close>, searched within the range of binary64: at most
  1024 halvings from 1 upwards, at most 1022 doublings from 1 downwards (below
  \<open>2 ^ - 1022\<close> the doubles are subnormal and keep the exponent \<open>- 1022\<close>).
\<close>

primrec exponent_up :: "nat \<Rightarrow> real \<Rightarrow> int" where
  "exponent_up 0 a = 0"
| "exponent_up (Suc n) a = (if a < 2 then 0 else exponent_up n (a / 2) + 1)"

primrec exponent_down :: "nat \<Rightarrow> real \<Rightarrow> int" where
  "exponent_down 0 a = 0"
| "exponent_down (Suc n) a = (if 1 \<le> a then 0 else exponent_down n (a * 2) - 1)"

definition binary_exponent :: "real \<Rightarrow> int" where
  "binary_exponent a = (if 1 \<le> a then exponent_up 1024 a else exponent_down 1022 a)"

definition pow2 :: "int \<Rightarrow> real" where
  "pow2 e = (if 0 \<le> e then 2 ^ nat e else 1 / 2 ^ nat (- e))"

text \<open>The distance between neighbouring doubles at \<open>x\<close>: the significand has 53 bits.\<close>

definition ulp :: "real \<Rightarrow> real" where
  "ulp x = pow2 (binary_exponent \<bar>x\<bar> - 52)"

definition round_double :: "real \<Rightarrow> real" where
  "round_double x = of_int (round_to_even (x / ulp x)) * ulp x"

text \<open>
  The double nearest to \<open>x\<close>, when it is finite: a result of magnitude \<open>2 ^ 1024\<close> or more is
  \<^verbatim>\<open>inf\<close> in Python, \<open>None\<close> here.
\<close>

definition double_of :: "real \<Rightarrow> real option" where
  "double_of x = (let v = round_double x in if \<bar>v\<bar> < 2 ^ 1024 then Some v else None)"

text \<open>Python's \<^verbatim>\<open>x + y\<close> on two finite floats.\<close>

definition float_add :: "real \<Rightarrow> real \<Rightarrow> real option" where
  "float_add x y = double_of (x + y)"

subsection \<open>The snapshot\<close>

text \<open>
  A raw open-position record is a dict with an optional \<^verbatim>\<open>info\<close> dict, whose entries
  \<^verbatim>\<open>symbol\<close>, \<^verbatim>\<open>size\<close>, \<^verbatim>\<open>side\<close> and \<^verbatim>\<open>avgPrice\<close> may be missing
  (\<open>None\<close>). A numeric entry is the text the exchange sent: \<open>Num r\<close> when it is a decimal
  numeral of value \<open>r\<close>, which \<^verbatim>\<open>float\<close> reads as the double nearest to \<open>r\<close>, and
  \<open>NotNum\<close> when \<^verbatim>\<open>float\<close> raises \<^verbatim>\<open>ValueError\<close>. The texts \<^verbatim>\<open>inf\<close> and
  \<^verbatim>\<open>nan\<close> are not modelled.
\<close>

datatype num_field = Num real | NotNum

record info_dict =
  info_symbol :: "string option"
  info_size :: "num_field option"
  info_side :: "string option"
  info_avgPrice :: "num_field option"

record position =
  info :: "info_dict option"

text \<open>Lines 151 and 153: \<^verbatim>\<open>float(info['size'])\<close> and \<^verbatim>\<open>float(info['avgPrice'])\<close>.\<close>

definition float_of :: "num_field \<Rightarrow> py_error + real" where
  "float_of f =
     (case f of
        Num r \<Rightarrow> (case double_of r of Some v \<Rightarrow> Inr v | None \<Rightarrow> Inl Not_finite)
      | NotNum \<Rightarrow> Inl ValueError)"

definition empty_info :: info_dict where
  "empty_info = \<lparr>info_symbol = None, info_size = None, info_side = None, info_avgPrice = None\<rparr>"

record side_entry =
  qty :: real
  avg_price :: real

record symbol_entry =
  long :: side_entry
  short :: side_entry

type_synonym position_details = "string \<rightharpoonup> symbol_entry"

text \<open>Line 157: \<^verbatim>\<open>{'long': {'qty': 0, 'avg_price': 0}, 'short': {'qty': 0, 'avg_price': 0}}\<close>.\<close>

definition new_entry :: symbol_entry where
  "new_entry = \<lparr>long = \<lparr>qty = 0, avg_price = 0\<rparr>, short = \<lparr>qty = 0, avg_price = 0\<rparr>\<rparr>"

text \<open>
  The body of the loop of lines 145-167, for one record. Lines 161 and 164 add the size to
  the quantity of the side, a float addition (\<^verbatim>\<open>+=\<close>); lines 162 and 165 overwrite its
  average price.
\<close>

definition add_position :: "position_details \<Rightarrow> position \<Rightarrow> py_error + position_details" where
  "add_position d p =
     (let i = (case info p of None \<Rightarrow> empty_info | Some i \<Rightarrow> i);
          position_symbol = before_colon (case info_symbol i of None \<Rightarrow> [] | Some s \<Rightarrow> s)
      in case (info_size i, info_side i, info_avgPrice i) of
           (Some sz, Some sd, Some ap) \<Rightarrow>
             (case float_of sz of
                Inl e \<Rightarrow> Inl e
              | Inr size_f \<Rightarrow>
                  (case float_of ap of
                     Inl e \<Rightarrow> Inl e
                   | Inr avg \<Rightarrow>
                       let side = lower sd;
                           e = (case d position_symbol of None \<Rightarrow> new_entry | Some e \<Rightarrow> e)
                       in if side = ''buy'' then
                            (case float_add (qty (long e)) size_f of
                               None \<Rightarrow> Inl Not_finite
                             | Some q \<Rightarrow>
                                 Inr (d(position_symbol \<mapsto>
                                   e\<lparr>long := \<lparr>qty = q, avg_price = avg\<rparr>\<rparr>)))
                          else if side = ''sell'' then
                            (case float_add (qty (short e)) size_f of
                               None \<Rightarrow> Inl Not_finite
                             | Some q \<Rightarrow>
                                 Inr (d(position_symbol \<mapsto>
                                   e\<lparr>short := \<lparr>qty = q, avg_price = avg\<rparr>\<rparr>)))
                          else Inr (d(position_symbol \<mapsto> e))))
         | _ \<Rightarrow> Inr d)"

fun add_positions :: "position_details \<Rightarrow> position list \<Rightarrow> py_error + position_details" where
  "add_positions d [] = Inr d"
| "add_positions d (p # ps) =
     (case add_position d p of Inl e \<Rightarrow> Inl e | Inr d' \<Rightarrow> add_positions d' ps)"

text \<open>Lines 143-167: the snapshot starts empty in every iteration.\<close>

definition build_position_details :: "position list \<Rightarrow> py_error + position_details" where
  "build_position_details open_position_data = add_positions Map.empty open_position_data"

text \<open>
  Lines 270-271 and 317-318:
  \<^verbatim>\<open>position_details.get(symbol, {}).get('long', {}).get('qty', 0)\<close> and
  \<^verbatim>\<open>position_details.get(symbol, {}).get('long', {}).get('avg_price', None)\<close>.
  The side is given by its selector, \<open>long\<close> or \<open>short\<close>.
\<close>

definition pos_qty :: "position_details \<Rightarrow> string \<Rightarrow> (symbol_entry \<Rightarrow> side_entry) \<Rightarrow> real" where
  "pos_qty d symbol sd = (case d symbol of None \<Rightarrow> 0 | Some e \<Rightarrow> qty (sd e))"

definition pos_price :: "position_details \<Rightarrow> string \<Rightarrow> (symbol_entry \<Rightarrow> side_entry) \<Rightarrow> real option" where
  "pos_price d symbol sd = (case d symbol of None \<Rightarrow> None | Some e \<Rightarrow> Some (avg_price (sd e)))"




section \<open>\<^verbatim>\<open>run_single_symbol\<close>: data\<close>

text \<open>
  The collaborators of \<^verbatim>\<open>run_single_symbol\<close> (the exchange, the manager, the methods
  of the \<^verbatim>\<open>Strategy\<close> base class) are not part of this file of the repository. A call
  that reads from the outside is modelled by the value it returns in that iteration
  (\<open>inputs\<close>), a method that computes from its arguments is a parameter (\<open>helpers\<close>), and
  every call that acts on the outside is logged as an \<open>event\<close>, in the order of the source.
  Log lines are not modelled, and the open orders, which are only passed on, are left out.
\<close>

datatype side = Long | Short

record order_book =
  asks :: "(real \<times> real) list option"
  bids :: "(real \<times> real) list option"

record metrics =
  metric_1mVol :: real
  metric_5mVol :: real
  metric_1mSpread :: real
  metric_5mSpread :: real
  metric_Trend :: string
  metric_MFI :: string
  metric_Funding :: real
  metric_HMA_Trend :: string
  metric_ERI_Trend :: string

record moving_averages =
  ma_3_high :: real
  ma_3_low :: real
  ma_6_high :: real
  ma_6_low :: real
  ma_1m_3_high :: real
  ma_5m_3_high :: real

record position_data =
  pd_long_upnl :: real
  pd_short_upnl :: real
  pd_long_cum_realised :: real
  pd_short_cum_realised :: real

record tp_counts =
  long_tp_count :: nat
  short_tp_count :: nat

text \<open>The keyword arguments of \<^verbatim>\<open>update_take_profit_spread_bybit\<close> (lines 409-438).\<close>

record tp_update =
  u_symbol :: string
  u_pos_qty :: real
  u_long_take_profit :: "real option"
  u_short_take_profit :: "real option"
  u_short_pos_price :: "real option"
  u_long_pos_price :: "real option"
  u_positionIdx :: nat
  u_order_side :: string
  u_next_tp_update :: real
  u_five_minute_distance :: real
  u_previous_five_minute_distance :: "real option"

text \<open>The arguments of \<^verbatim>\<open>bybit_qs_entry_exit_eri\<close> that are computed in the loop.\<close>

record entry_exit =
  e_long_pos_qty :: real
  e_short_pos_qty :: real
  e_long_pos_price :: "real option"
  e_short_pos_price :: "real option"
  e_should_long :: bool
  e_should_short :: bool
  e_should_add_to_long :: bool
  e_should_add_to_short :: bool

text \<open>Lines 497-514.\<close>

record symbol_data =
  sd_symbol :: string
  sd_min_qty :: "real option"
  sd_current_price :: "real option"
  sd_balance :: "real option"
  sd_available_bal :: "real option"
  sd_volume :: "real option"
  sd_spread :: "real option"
  sd_trend :: "string option"
  sd_long_pos_qty :: real
  sd_short_pos_qty :: real
  sd_long_upnl :: real
  sd_short_upnl :: real
  sd_long_cum_pnl :: real
  sd_short_cum_pnl :: real
  sd_long_pos_price :: "real option"
  sd_short_pos_price :: "real option"

datatype event =
    Get_all_open_positions
  | Get_open_orders
  | Get_balance
  | Get_available_balance
  | Sleep nat
  | Funding_check
  | Get_current_price
  | Get_orderbook
  | Initialize_symbol "real option" "real option"
  | Get_all_moving_averages
  | Get_api_data
  | Get_positions
  | Set_position_leverage side real
  | Update_dynamic_amounts
  | Calculate_dynamic_amount
  | Print_trade_quantities
  | Get_open_tp_order_count
  | Helperv2 real real
  | Entry_exit_eri entry_exit
  | Initial_entry real real bool bool
  | Place_tp side real real
  | Update_take_profit_spread side tp_update
  | Cancel_entries
  | Publish symbol_data
  | Save_dashboard
  | Update_shared_data

record config =
  blacklist :: "string list"
  symbols_allowed :: "nat option"
  test_orders_enabled :: bool
  spoofing_interval :: real
  dashboard_enabled :: bool

record helpers =
  extract_symbols_from_positions_bybit :: "position list \<Rightarrow> string list"
  can_trade_new_symbol :: "string list \<Rightarrow> nat option \<Rightarrow> string \<Rightarrow> bool"
  short_trade_condition :: "real option \<Rightarrow> real \<Rightarrow> bool"
  long_trade_condition :: "real option \<Rightarrow> real \<Rightarrow> bool"
  calculate_take_profits_based_on_spread ::
    "real option \<Rightarrow> real option \<Rightarrow> string \<Rightarrow> real \<Rightarrow> real option \<Rightarrow> real option \<times> real option"
  update_take_profit_spread_bybit :: "tp_update \<Rightarrow> real"

text \<open>
  What the outside returns during one iteration: \<^verbatim>\<open>time.time()\<close> of line 131, the
  open positions, the two balances (\<open>None\<close> when the call gives \<^verbatim>\<open>None\<close>), the price,
  the order book, the moving averages, the metrics, \<^verbatim>\<open>get_positions_bybit\<close>, the result
  of \<^verbatim>\<open>calculate_dynamic_amount_v2\<close>, the take-profit order counts of line 377,
  \<^verbatim>\<open>datetime.now()\<close> of line 404 and \<^verbatim>\<open>self.last_cancel_time\<close> at line 345.
\<close>

record inputs =
  time_time :: real
  open_position_data :: "position list"
  balance :: "real option"
  available_balance :: "real option"
  price :: "real option"
  orderbook :: order_book
  all_moving_averages :: moving_averages
  api_metrics :: metrics
  positions_bybit :: position_data
  dynamic_amount :: "real \<times> real \<times> real option"
  tp_order_counts :: tp_counts
  datetime_now :: real
  last_cancel_time :: real

text \<open>
  The variables that live across iterations: the locals of \<^verbatim>\<open>run_single_symbol\<close>
  (lines 64-83 and 115, \<^verbatim>\<open>eri_trend\<close>, \<^verbatim>\<open>best_ask_price\<close> and
  \<^verbatim>\<open>best_bid_price\<close>, which are \<open>None\<close> while not yet assigned) and the attributes of
  the strategy object that the loop reads and writes (lines 22-31).
\<close>

record state =
  min_qty :: "real option"
  current_price :: "real option"
  total_equity :: "real option"
  available_equity :: "real option"
  one_minute_volume :: "real option"
  five_minute_volume :: "real option"
  five_minute_distance :: "real option"
  trend :: "string option"
  eri_trend :: "string option"
  long_pos_qty :: real
  short_pos_qty :: real
  long_upnl :: real
  short_upnl :: real
  cum_realised_pnl_long :: real
  cum_realised_pnl_short :: real
  long_pos_price :: "real option"
  short_pos_price :: "real option"
  last_equity_fetch_time :: real
  previous_five_minute_distance :: "real option"
  best_ask_price :: "real option"
  best_bid_price :: "real option"
  last_known_ask :: "string \<rightharpoonup> real"
  last_known_bid :: "string \<rightharpoonup> real"
  next_long_tp_update :: real
  next_short_tp_update :: real
  spoofing_active :: bool

text \<open>The state when the loop is entered; the two arguments are the results of
  \<^verbatim>\<open>calculate_next_update_time\<close> in the constructor.\<close>

definition initial_state :: "real \<Rightarrow> real \<Rightarrow> state" where
  "initial_state next_long next_short =
     \<lparr>min_qty = None, current_price = None, total_equity = None, available_equity = None,
      one_minute_volume = None, five_minute_volume = None, five_minute_distance = None,
      trend = None, eri_trend = None, long_pos_qty = 0, short_pos_qty = 0,
      long_upnl = 0, short_upnl = 0, cum_realised_pnl_long = 0, cum_realised_pnl_short = 0,
      long_pos_price = None, short_pos_price = None, last_equity_fetch_time = 0,
      previous_five_minute_distance = None, best_ask_price = None, best_bid_price = None,
      last_known_ask = Map.empty, last_known_bid = Map.empty,
      next_long_tp_update = next_long, next_short_tp_update = next_short,
      spoofing_active = False\<rparr>"

datatype control = Next_iteration | Break | Raise py_error

record outcome =
  control :: control
  events :: "event list"
  state_after :: state


section \<open>\<^verbatim>\<open>run_single_symbol\<close>: one iteration of the loop\<close>

subsection \<open>Lines 131-191: positions, open orders, equity\<close>

definition equity_refresh_interval :: real where
  "equity_refresh_interval = 1800"

text \<open>Line 179.\<close>

definition equity_fetch_due :: "state \<Rightarrow> real \<Rightarrow> bool" where
  "equity_fetch_due st current_time \<longleftrightarrow>
     current_time - last_equity_fetch_time st > equity_refresh_interval \<or> total_equity st = None"

text \<open>Lines 180-182.\<close>

definition fetch_equity :: "state \<Rightarrow> inputs \<Rightarrow> state" where
  "fetch_equity st inp =
     st\<lparr>total_equity := balance inp, available_equity := available_balance inp,
        last_equity_fetch_time := time_time inp\<rparr>"

text \<open>
  \<open>refresh\<close> ends the iteration (\<open>Inl\<close>) when \<^verbatim>\<open>float\<close> raises on a position record or
  when the equity is still \<^verbatim>\<open>None\<close> after the fetch (lines 188-191: sleep, then
  \<^verbatim>\<open>continue\<close>); otherwise it hands on the snapshot, the open symbols, the events so far
  and the state.
\<close>

definition refresh ::
  "helpers \<Rightarrow> state \<Rightarrow> inputs \<Rightarrow> outcome + (position_details \<times> string list \<times> event list \<times> state)" where
  "refresh h st inp =
     (case build_position_details (open_position_data inp) of
        Inl e \<Rightarrow> Inl \<lparr>control = Raise e, events = [Get_all_open_positions], state_after = st\<rparr>
      | Inr details \<Rightarrow>
          let open_symbols =
                map drop_slash (extract_symbols_from_positions_bybit h (open_position_data inp));
              ev = [Get_all_open_positions, Get_open_orders]
          in if equity_fetch_due st (time_time inp) then
               let st' = fetch_equity st inp;
                   ev' = ev @ [Get_balance, Get_available_balance]
               in if total_equity st' = None then
                    Inl \<lparr>control = Next_iteration, events = ev' @ [Sleep 10], state_after = st'\<rparr>
                  else Inr (details, open_symbols, ev', st')
             else Inr (details, open_symbols, ev, st))"

subsection \<open>Lines 193-244: blacklist, price, order book, eligibility\<close>

text \<open>\<^verbatim>\<open>'asks' in order_book and len(order_book['asks']) > 0\<close>, then
  \<^verbatim>\<open>order_book['asks'][0][0]\<close>.\<close>

definition top_of_book :: "(real \<times> real) list option \<Rightarrow> real option" where
  "top_of_book levels = (case levels of Some ((p, a) # rest) \<Rightarrow> Some p | _ \<Rightarrow> None)"

text \<open>Lines 207-212.\<close>

definition handle_ask :: "string \<Rightarrow> order_book \<Rightarrow> state \<Rightarrow> state" where
  "handle_ask symbol ob st =
     (case top_of_book (asks ob) of
        Some p \<Rightarrow> st\<lparr>best_ask_price := Some p, last_known_ask := (last_known_ask st)(symbol \<mapsto> p)\<rparr>
      | None \<Rightarrow> st\<lparr>best_ask_price := last_known_ask st symbol\<rparr>)"

text \<open>Lines 214-219.\<close>

definition handle_bid :: "string \<Rightarrow> order_book \<Rightarrow> state \<Rightarrow> state" where
  "handle_bid symbol ob st =
     (case top_of_book (bids ob) of
        Some p \<Rightarrow> st\<lparr>best_bid_price := Some p, last_known_bid := (last_known_bid st)(symbol \<mapsto> p)\<rparr>
      | None \<Rightarrow> st\<lparr>best_bid_price := last_known_bid st symbol\<rparr>)"

text \<open>
  \<^verbatim>\<open>rotator_symbols_standardized\<close> defaults to \<^verbatim>\<open>None\<close>: then \<^verbatim>\<open>s not in None\<close>
  at line 223 raises \<^verbatim>\<open>TypeError\<close> as soon as there is an open symbol, and
  \<^verbatim>\<open>symbol in None\<close> at line 249 raises it otherwise.
\<close>

definition market ::
  "config \<Rightarrow> helpers \<Rightarrow> string \<Rightarrow> string list option \<Rightarrow> string list \<Rightarrow> event list \<Rightarrow> state \<Rightarrow> inputs
     \<Rightarrow> outcome + (string list \<times> bool \<times> event list \<times> state)" where
  "market cfg h symbol rotator open_symbols ev st inp =
     (if symbol \<in> set (blacklist cfg) then
        Inl \<lparr>control = Break, events = ev, state_after = st\<rparr>
      else
        let st1 = st\<lparr>current_price := price inp\<rparr>;
            st2 = handle_ask symbol (orderbook inp) st1;
            st3 = handle_bid symbol (orderbook inp) st2;
            ev1 = ev @ [Funding_check, Get_current_price, Get_orderbook]
        in if rotator = None \<and> open_symbols \<noteq> [] then
             Inl \<lparr>control = Raise TypeError, events = ev1, state_after = st3\<rparr>
           else
             let trading_allowed = can_trade_new_symbol h open_symbols (symbols_allowed cfg) symbol;
                 ev2 = ev1 @ [Initialize_symbol (total_equity st3) (best_ask_price st3),
                              Get_all_moving_averages, Sleep 10]
             in case rotator of
                  None \<Rightarrow> Inl \<lparr>control = Raise TypeError, events = ev2, state_after = st3\<rparr>
                | Some r \<Rightarrow> Inr (r, trading_allowed, ev2, st3))"

subsection \<open>Lines 249 and 446: which branch runs\<close>

datatype branch = Managing | Prospecting | Neither

definition select_branch :: "string \<Rightarrow> string list \<Rightarrow> string list \<Rightarrow> bool \<Rightarrow> branch" where
  "select_branch symbol rotator open_symbols trading_allowed =
     (if symbol \<in> set rotator \<or> (symbol \<in> set open_symbols \<or> trading_allowed) then Managing
      else if symbol \<in> set rotator \<and> symbol \<notin> set open_symbols \<and> trading_allowed then Prospecting
      else Neither)"

subsection \<open>Lines 250-444: the first branch\<close>

text \<open>Lines 407-421 and 423-438: the arguments handed to
  \<^verbatim>\<open>update_take_profit_spread_bybit\<close>. \<open>prev\<close> is the value of the variable
  \<^verbatim>\<open>previous_five_minute_distance\<close> when the call is made.\<close>

definition long_update_args ::
  "string \<Rightarrow> real \<Rightarrow> real option \<Rightarrow> real option \<Rightarrow> real option \<Rightarrow> real option \<Rightarrow> real \<Rightarrow> real
     \<Rightarrow> real option \<Rightarrow> tp_update" where
  "long_update_args symbol lq long_tp short_tp sp lp next_update five prev =
     \<lparr>u_symbol = symbol, u_pos_qty = lq, u_long_take_profit = long_tp,
      u_short_take_profit = short_tp, u_short_pos_price = sp, u_long_pos_price = lp,
      u_positionIdx = 1, u_order_side = ''sell'', u_next_tp_update = next_update,
      u_five_minute_distance = five, u_previous_five_minute_distance = prev\<rparr>"

definition short_update_args ::
  "string \<Rightarrow> real \<Rightarrow> real option \<Rightarrow> real option \<Rightarrow> real option \<Rightarrow> real option \<Rightarrow> real \<Rightarrow> real
     \<Rightarrow> real option \<Rightarrow> tp_update" where
  "short_update_args symbol sq long_tp short_tp sp lp next_update five prev =
     \<lparr>u_symbol = symbol, u_pos_qty = sq, u_long_take_profit = long_tp,
      u_short_take_profit = short_tp, u_short_pos_price = sp, u_long_pos_price = lp,
      u_positionIdx = 2, u_order_side = ''buy'', u_next_tp_update = next_update,
      u_five_minute_distance = five, u_previous_five_minute_distance = prev\<rparr>"

text \<open>Lines 395-397 and 400-402.\<close>

definition place_tp :: "side \<Rightarrow> real \<Rightarrow> real option \<Rightarrow> nat \<Rightarrow> event list" where
  "place_tp sd q take_profit tp_count =
     (case take_profit of
        Some tp \<Rightarrow> if q > 0 \<and> tp_count = 0 then [Place_tp sd q tp] else []
      | None \<Rightarrow> [])"

text \<open>Lines 407-408 and 424-425.\<close>

definition update_due :: "real \<Rightarrow> real \<Rightarrow> real \<Rightarrow> real option \<Rightarrow> bool" where
  "update_due q now next_update take_profit \<longleftrightarrow>
     q > 0 \<and> now \<ge> next_update \<and> take_profit \<noteq> None"

definition managing ::
  "config \<Rightarrow> helpers \<Rightarrow> string \<Rightarrow> position_details \<Rightarrow> state \<Rightarrow> inputs \<Rightarrow> event list \<times> state" where
  "managing cfg h symbol details st inp =
     (let m = api_metrics inp;
          five = metric_5mSpread m;
          lq = pos_qty details symbol long;
          sq = pos_qty details symbol short;
          (long_dynamic_amount, short_dynamic_amount, mq) = dynamic_amount inp;
          pd = positions_bybit inp;
          lp = pos_price details symbol long;
          sp = pos_price details symbol short;
          (short_tp, long_tp) =
            calculate_take_profits_based_on_spread h sp lp symbol five
              (previous_five_minute_distance st);
          prev = Some five;
          ma = all_moving_averages inp;
          should_short = short_trade_condition h (best_ask_price st) (ma_3_high ma);
          should_long = long_trade_condition h (best_bid_price st) (ma_3_low ma);
          should_add_to_short =
            (case sp of
               None \<Rightarrow> False
             | Some p \<Rightarrow> p < ma_6_low ma \<and> short_trade_condition h (best_ask_price st) (ma_6_high ma));
          should_add_to_long =
            (case lp of
               None \<Rightarrow> False
             | Some p \<Rightarrow> p > ma_6_high ma \<and> long_trade_condition h (best_bid_price st) (ma_6_low ma));
          spoof = (test_orders_enabled cfg
                   \<and> time_time inp - last_cancel_time inp \<ge> spoofing_interval cfg);
          counts = tp_order_counts inp;
          now = datetime_now inp;
          long_due = update_due lq now (next_long_tp_update st) long_tp;
          short_due = update_due sq now (next_short_tp_update st) short_tp;
          long_args = long_update_args symbol lq long_tp short_tp sp lp (next_long_tp_update st) five prev;
          short_args = short_update_args symbol sq long_tp short_tp sp lp (next_short_tp_update st) five prev;
          ev =
            [Get_api_data, Get_positions,
             Initialize_symbol (total_equity st) (best_ask_price st),
             Set_position_leverage Long lq, Set_position_leverage Short sq,
             Update_dynamic_amounts, Calculate_dynamic_amount, Print_trade_quantities,
             Get_open_tp_order_count]
            @ (if spoof then [Helperv2 short_dynamic_amount long_dynamic_amount] else [])
            @ [Entry_exit_eri
                 \<lparr>e_long_pos_qty = lq, e_short_pos_qty = sq, e_long_pos_price = lp,
                  e_short_pos_price = sp, e_should_long = should_long,
                  e_should_short = should_short, e_should_add_to_long = should_add_to_long,
                  e_should_add_to_short = should_add_to_short\<rparr>,
               Get_open_tp_order_count]
            @ place_tp Long lq long_tp (long_tp_count counts)
            @ place_tp Short sq short_tp (short_tp_count counts)
            @ (if long_due then [Update_take_profit_spread Long long_args] else [])
            @ (if short_due then [Update_take_profit_spread Short short_args] else [])
            @ [Cancel_entries, Sleep 30];
          st' = st\<lparr>one_minute_volume := Some (metric_1mVol m),
                   five_minute_volume := Some (metric_5mVol m),
                   five_minute_distance := Some five,
                   trend := Some (metric_Trend m),
                   eri_trend := Some (metric_ERI_Trend m),
                   long_pos_qty := lq, short_pos_qty := sq, min_qty := mq,
                   short_upnl := pd_short_upnl pd, long_upnl := pd_long_upnl pd,
                   cum_realised_pnl_long := pd_long_cum_realised pd,
                   cum_realised_pnl_short := pd_short_cum_realised pd,
                   long_pos_price := lp, short_pos_price := sp,
                   previous_five_minute_distance := prev,
                   spoofing_active := (spoof \<or> spoofing_active st),
                   next_long_tp_update :=
                     (if long_due then update_take_profit_spread_bybit h long_args
                      else next_long_tp_update st),
                   next_short_tp_update :=
                     (if short_due then update_take_profit_spread_bybit h short_args
                      else next_short_tp_update st)\<rparr>
      in (ev, st'))"

subsection \<open>Lines 446-494: the second branch\<close>

text \<open>
  \<^verbatim>\<open>eri_trend\<close> is assigned only in the first branch (line 266); reading it at line 490
  before that raises \<^verbatim>\<open>UnboundLocalError\<close>.
\<close>

definition prospecting ::
  "helpers \<Rightarrow> string \<Rightarrow> position_details \<Rightarrow> bool \<Rightarrow> state \<Rightarrow> inputs \<Rightarrow> control \<times> event list \<times> state" where
  "prospecting h symbol details trading_allowed st inp =
     (let m = api_metrics inp;
          st1 = st\<lparr>one_minute_volume := Some (metric_1mVol m),
                   five_minute_volume := Some (metric_5mVol m),
                   five_minute_distance := Some (metric_5mSpread m),
                   trend := Some (metric_Trend m)\<rparr>
      in if trading_allowed then
           let (long_dynamic_amount, short_dynamic_amount, mq) = dynamic_amount inp;
               lq = pos_qty details symbol long;
               sq = pos_qty details symbol short;
               ma = all_moving_averages inp;
               should_short = short_trade_condition h (best_ask_price st) (ma_3_high ma);
               should_long = long_trade_condition h (best_bid_price st) (ma_3_low ma);
               ev = [Get_api_data,
                     Initialize_symbol (total_equity st) (best_ask_price st),
                     Set_position_leverage Long (long_pos_qty st),
                     Set_position_leverage Short (short_pos_qty st),
                     Update_dynamic_amounts, Calculate_dynamic_amount, Get_positions];
               st2 = st1\<lparr>min_qty := mq, long_pos_qty := lq, short_pos_qty := sq\<rparr>
           in if eri_trend st = None then (Raise UnboundLocalError, ev, st2)
              else (Next_iteration,
                    ev @ [Initial_entry lq sq should_long should_short, Sleep 10], st2)
         else (Next_iteration, [Get_api_data], st1))"

subsection \<open>Lines 497-524: the status record\<close>

definition symbol_data_of :: "string \<Rightarrow> state \<Rightarrow> symbol_data" where
  "symbol_data_of symbol st =
     \<lparr>sd_symbol = symbol, sd_min_qty = min_qty st, sd_current_price = current_price st,
      sd_balance = total_equity st, sd_available_bal = available_equity st,
      sd_volume = five_minute_volume st, sd_spread = five_minute_distance st,
      sd_trend = trend st, sd_long_pos_qty = long_pos_qty st,
      sd_short_pos_qty = short_pos_qty st, sd_long_upnl = long_upnl st,
      sd_short_upnl = short_upnl st, sd_long_cum_pnl = cum_realised_pnl_long st,
      sd_short_cum_pnl = cum_realised_pnl_short st, sd_long_pos_price = long_pos_price st,
      sd_short_pos_price = short_pos_price st\<rparr>"

definition publish :: "config \<Rightarrow> string \<Rightarrow> event list \<Rightarrow> state \<Rightarrow> outcome" where
  "publish cfg symbol ev st =
     \<lparr>control = Next_iteration,
      events = ev @ [Publish (symbol_data_of symbol st)]
               @ (if dashboard_enabled cfg then [Save_dashboard, Update_shared_data] else [])
               @ [Sleep 30],
      state_after = st\<rparr>"

subsection \<open>The body of \<^verbatim>\<open>while True\<close> and the loop\<close>

definition iteration ::
  "config \<Rightarrow> helpers \<Rightarrow> string \<Rightarrow> string list option \<Rightarrow> state \<Rightarrow> inputs \<Rightarrow> outcome" where
  "iteration cfg h symbol rotator st inp =
     (case refresh h st inp of
        Inl out \<Rightarrow> out
      | Inr (details, open_symbols, ev, st1) \<Rightarrow>
          (case market cfg h symbol rotator open_symbols ev st1 inp of
             Inl out \<Rightarrow> out
           | Inr (r, trading_allowed, ev2, st2) \<Rightarrow>
               (case select_branch symbol r open_symbols trading_allowed of
                  Managing \<Rightarrow>
                    (case managing cfg h symbol details st2 inp of
                       (ev3, st3) \<Rightarrow> publish cfg symbol (ev2 @ ev3) st3)
                | Prospecting \<Rightarrow>
                    (case prospecting h symbol details trading_allowed st2 inp of
                       (Next_iteration, ev3, st3) \<Rightarrow> publish cfg symbol (ev2 @ ev3) st3
                     | (c, ev3, st3) \<Rightarrow> \<lparr>control = c, events = ev2 @ ev3, state_after = st3\<rparr>)
                | Neither \<Rightarrow> publish cfg symbol ev2 st2)))"

text \<open>
  The loop has no exit but the blacklist and an exception. \<open>run_loop\<close> runs it for as many
  iterations as there are input records and returns, per iteration, the inputs and the
  outcome; it stops early when an iteration breaks or raises.
\<close>

fun run_loop ::
  "config \<Rightarrow> helpers \<Rightarrow> string \<Rightarrow> string list option \<Rightarrow> state \<Rightarrow> inputs list
     \<Rightarrow> (inputs \<times> outcome) list" where
  "run_loop cfg h symbol rotator st [] = []"
| "run_loop cfg h symbol rotator st (inp # ins) =
     (let out = iteration cfg h symbol rotator st inp
      in (inp, out) #
         (if control out = Next_iteration
          then run_loop cfg h symbol rotator (state_after out) ins else []))"


section \<open>Observations on an iteration\<close>

text \<open>The decision calls and the take-profit calls among the events of an iteration.\<close>

definition initial_entries :: "event list \<Rightarrow> event list" where
  "initial_entries evs = filter (\<lambda>e. case e of Initial_entry lq sq l s \<Rightarrow> True | _ \<Rightarrow> False) evs"

definition entry_exits :: "event list \<Rightarrow> entry_exit list" where
  "entry_exits evs = concat (map (\<lambda>e. case e of Entry_exit_eri a \<Rightarrow> [a] | _ \<Rightarrow> []) evs)"

definition tp_placements :: "event list \<Rightarrow> (side \<times> real \<times> real) list" where
  "tp_placements evs = concat (map (\<lambda>e. case e of Place_tp sd q p \<Rightarrow> [(sd, q, p)] | _ \<Rightarrow> []) evs)"

definition tp_updates :: "event list \<Rightarrow> (side \<times> tp_update) list" where
  "tp_updates evs =
     concat (map (\<lambda>e. case e of Update_take_profit_spread sd a \<Rightarrow> [(sd, a)] | _ \<Rightarrow> []) evs)"

definition equity_fetches :: "event list \<Rightarrow> nat" where
  "equity_fetches evs = length (filter (\<lambda>e. e = Get_balance) evs)"

section \<open>Concrete inputs\<close>

text \<open>A well-formed raw position record: symbol, side, size and average price present.\<close>

definition raw_position :: "string \<Rightarrow> string \<Rightarrow> real \<Rightarrow> real \<Rightarrow> position" where
  "raw_position s sd q p =
     \<lparr>info = Some \<lparr>info_symbol = Some s, info_size = Some (Num q), info_side = Some sd,
                  info_avgPrice = Some (Num p)\<rparr>\<rparr>"

definition example_config :: config where
  "example_config =
     \<lparr>blacklist = [], symbols_allowed = Some 3, test_orders_enabled = False,
      spoofing_interval = 1, dashboard_enabled = False\<rparr>"

text \<open>
  Stand-ins for the absent helper methods, used only to run the loop on concrete inputs:
  the open symbols are the symbols of the records, a new symbol may be traded while fewer
  than the allowed number are open, a short (long) entry needs the best ask above (the best
  bid below) the moving average, the take-profit targets are one spread away from the entry
  price, and a reschedule sets the next update 60 seconds later.
\<close>

definition example_helpers :: helpers where
  "example_helpers =
     \<lparr>extract_symbols_from_positions_bybit =
        map (\<lambda>p. case info p of
                    None \<Rightarrow> []
                  | Some i \<Rightarrow> (case info_symbol i of None \<Rightarrow> [] | Some s \<Rightarrow> s)),
      can_trade_new_symbol =
        (\<lambda>open_symbols allowed symbol.
           symbol \<in> set open_symbols
           \<or> (case allowed of None \<Rightarrow> True | Some n \<Rightarrow> length open_symbols < n)),
      short_trade_condition = (\<lambda>ask ma. case ask of None \<Rightarrow> False | Some a \<Rightarrow> a > ma),
      long_trade_condition = (\<lambda>bid ma. case bid of None \<Rightarrow> False | Some b \<Rightarrow> b < ma),
      calculate_take_profits_based_on_spread =
        (\<lambda>sp lp symbol five prev. (map_option (\<lambda>p. p - five) sp, map_option (\<lambda>p. p + five) lp)),
      update_take_profit_spread_bybit = (\<lambda>a. u_next_tp_update a + 60)\<rparr>"

definition example_inputs :: "real \<Rightarrow> position list \<Rightarrow> real option \<Rightarrow> order_book \<Rightarrow> inputs" where
  "example_inputs t positions bal ob =
     \<lparr>time_time = t, open_position_data = positions, balance = bal, available_balance = bal,
      price = Some 100, orderbook = ob,
      all_moving_averages =
        \<lparr>ma_3_high = 101, ma_3_low = 99, ma_6_high = 102, ma_6_low = 98,
         ma_1m_3_high = 101, ma_5m_3_high = 101\<rparr>,
      api_metrics =
        \<lparr>metric_1mVol = 1000, metric_5mVol = 5000, metric_1mSpread = 1 / 2,
         metric_5mSpread = 4 / 5, metric_Trend = ''long'', metric_MFI = ''long'',
         metric_Funding = 0, metric_HMA_Trend = ''long'', metric_ERI_Trend = ''bullish''\<rparr>,
      positions_bybit =
        \<lparr>pd_long_upnl = 0, pd_short_upnl = 0, pd_long_cum_realised = 0,
         pd_short_cum_realised = 0\<rparr>,
      dynamic_amount = (1, 1, Some 1),
      tp_order_counts = \<lparr>long_tp_count = 0, short_tp_count = 0\<rparr>,
      datetime_now = t, last_cancel_time = 0\<rparr>"

definition full_book :: order_book where
  "full_book = \<lparr>asks = Some [(100, 5), (101, 7)], bids = Some [(99, 4), (98, 2)]\<rparr>"

definition empty_book :: order_book where
  "empty_book = \<lparr>asks = Some [], bids = None\<rparr>"


section \<open>Observations on the equity fetch\<close>

text \<open>\<^verbatim>\<open>float\<close> raises on no position record of the iteration, so that line 179 is reached.\<close>

definition readable :: "inputs \<Rightarrow> bool" where
  "readable inp = (case build_position_details (open_position_data inp) of Inl e \<Rightarrow> False | Inr d \<Rightarrow> True)"

text \<open>The iteration reaches line 179 and the condition there holds.\<close>

definition fetched :: "state \<Rightarrow> inputs \<Rightarrow> bool" where
  "fetched st inp \<longleftrightarrow> readable inp \<and> equity_fetch_due st (time_time inp)"

text \<open>The number of balance fetches over the iterations of a run.\<close>

definition total_fetches :: "(inputs \<times> outcome) list \<Rightarrow> nat" where
  "total_fetches tr = sum_list (map (\<lambda>(inp, out). equity_fetches (events out)) tr)"


section \<open>Observations on the order book\<close>

text \<open>
  The claim about the best ask and bid speaks of the values observed live in earlier
  iterations. \<open>live_asks\<close> lists, oldest first, the top ask of every iteration of a run that
  fetched the order book and found the ask side non-empty; \<open>latest\<close> is the most recent one.
\<close>

definition live_asks :: "(inputs \<times> outcome) list \<Rightarrow> real list" where
  "live_asks tr =
     concat (map (\<lambda>(inp, out).
       if Get_orderbook \<in> set (events out)
       then (case top_of_book (asks (orderbook inp)) of Some p \<Rightarrow> [p] | None \<Rightarrow> [])
       else []) tr)"

definition live_bids :: "(inputs \<times> outcome) list \<Rightarrow> real list" where
  "live_bids tr =
     concat (map (\<lambda>(inp, out).
       if Get_orderbook \<in> set (events out)
       then (case top_of_book (bids (orderbook inp)) of Some p \<Rightarrow> [p] | None \<Rightarrow> [])
       else []) tr)"

definition latest :: "real list \<Rightarrow> real option" where
  "latest xs = (if xs = [] then None else Some (last xs))"

text \<open>The live top of a side of the book if there is one, else the fallback.\<close>

definition live_or :: "(real \<times> real) list option \<Rightarrow> real option \<Rightarrow> real option" where
  "live_or levels fallback = (case top_of_book levels of Some p \<Rightarrow> Some p | None \<Rightarrow> fallback)"


section \<open>The take-profit orders on the exchange\<close>

text \<open>Line 323: the take-profit target of a side, as computed in an iteration.\<close>

definition take_profit_target ::
  "helpers \<Rightarrow> string \<Rightarrow> position_details \<Rightarrow> state \<Rightarrow> inputs \<Rightarrow> side \<Rightarrow> real option" where
  "take_profit_target h symbol d st inp sd =
     (case calculate_take_profits_based_on_spread h (pos_price d symbol short)
             (pos_price d symbol long) symbol (metric_5mSpread (api_metrics inp))
             (previous_five_minute_distance st) of
        (short_tp, long_tp) \<Rightarrow> (case sd of Long \<Rightarrow> long_tp | Short \<Rightarrow> short_tp))"

definition entry_of :: "side \<Rightarrow> symbol_entry \<Rightarrow> side_entry" where
  "entry_of sd = (case sd of Long \<Rightarrow> long | Short \<Rightarrow> short)"

definition tp_count_of :: "side \<Rightarrow> tp_counts \<Rightarrow> nat" where
  "tp_count_of sd c = (case sd of Long \<Rightarrow> long_tp_count c | Short \<Rightarrow> short_tp_count c)"

text \<open>
  Modelled from the spec: the book of active take-profit orders of the symbol, which lives on
  the exchange and is absent from this file. By sections 4.5, 4.6 and 6 of the spec,
  \<^verbatim>\<open>GetOpenTakeProfitOrderCounts\<close> reports the number of active orders per side,
  \<^verbatim>\<open>PlaceTakeProfitOrder\<close> adds one order on its side, and the reschedule operation
  cancels and reissues an existing order, which leaves the number as it is; no other call of
  the loop touches take-profit orders. Between two iterations the exchange may fill or
  cancel some of them.
\<close>

type_synonym tp_book = "side \<Rightarrow> nat"

text \<open>Modelled from the spec: what a call of the loop does to the book. Placing a
  take-profit order adds one order on its side; every other call, the reschedule included,
  leaves the numbers as they are.\<close>

definition tp_effect :: "event \<Rightarrow> tp_book \<Rightarrow> tp_book" where
  "tp_effect e b = (case e of Place_tp sd q p \<Rightarrow> b(sd := Suc (b sd)) | _ \<Rightarrow> b)"

text \<open>Modelled from the spec: the answer of \<^verbatim>\<open>get_open_tp_order_count\<close>, the numbers
  of the book.\<close>

definition counts_of :: "tp_book \<Rightarrow> tp_counts" where
  "counts_of b = \<lparr>long_tp_count = b Long, short_tp_count = b Short\<rparr>"

text \<open>Modelled from the spec: the book after the exchange has filled or cancelled
  \<open>filled sd\<close> orders of each side.\<close>

definition after_fills :: "tp_book \<Rightarrow> tp_book \<Rightarrow> tp_book" where
  "after_fills b filled = (\<lambda>sd. b sd - filled sd)"

text \<open>
  Modelled from the spec: one iteration against that book. The orders filled since the last
  iteration leave the book, the counts the iteration reads are those of the book, and the
  events of the iteration act on it.
\<close>

definition iteration_on_exchange ::
  "config \<Rightarrow> helpers \<Rightarrow> string \<Rightarrow> string list option \<Rightarrow> state \<Rightarrow> tp_book \<Rightarrow> inputs \<times> tp_book
     \<Rightarrow> outcome \<times> tp_book" where
  "iteration_on_exchange cfg h symbol rotator st b x =
     (case x of (inp, filled) \<Rightarrow>
        let b1 = after_fills b filled;
            out = iteration cfg h symbol rotator st (inp\<lparr>tp_order_counts := counts_of b1\<rparr>)
        in (out, fold tp_effect (events out) b1))"

text \<open>Modelled from the spec: the book after a run of the loop.\<close>

fun run_on_exchange ::
  "config \<Rightarrow> helpers \<Rightarrow> string \<Rightarrow> string list option \<Rightarrow> state \<Rightarrow> tp_book \<Rightarrow> (inputs \<times> tp_book) list
     \<Rightarrow> tp_book" where
  "run_on_exchange cfg h symbol rotator st b [] = b"
| "run_on_exchange cfg h symbol rotator st b (x # xs) =
     (case iteration_on_exchange cfg h symbol rotator st b x of
        (out, b') \<Rightarrow>
          if control out = Next_iteration
          then run_on_exchange cfg h symbol rotator (state_after out) b' xs else b')"

text \<open>The number of take-profit orders an event list places on a side.\<close>

definition placed :: "side \<Rightarrow> event list \<Rightarrow> nat" where
  "placed sd evs = length (filter (\<lambda>(s, q, p). s = sd) (tp_placements evs))"


section \<open>Theorems\<close>

subsection \<open>The lock registry\<close>

text \<open>
  C1. The claim: of the concurrent invocations of \<^verbatim>\<open>run\<close> for one symbol, at most one
  acquires the lock and processes the symbol. Two threads call \<^verbatim>\<open>run("BTCUSDT")\<close>
  while the registry is empty. Both evaluate line 47 before either executes line 48: thread 0
  stores a lock and acquires it, thread 1 then stores a second lock over the first and acquires
  that one. Both threads are inside \<^verbatim>\<open>run_single_symbol\<close> for the same symbol, each
  holding a lock object of its own.
\<close>

theorem run_same_symbol_both_process:
  "processing (schedule [0, 1, 0, 0, 1, 1] (start [''BTCUSDT'', ''BTCUSDT''])) ''BTCUSDT'' = [0, 1]
   \<and> locks (schedule [0, 1, 0, 0, 1, 1] (start [''BTCUSDT'', ''BTCUSDT''])) = [True, True]"
  by (simp add: processing_def schedule_def start_def step_def goto_def standardized_symbol_def
      upper_def upper_char_def numeral_2_eq_2)

text \<open>
  Without the interleaving the lock does its work: thread 0 runs up to
  \<^verbatim>\<open>run_single_symbol\<close> and stays there, thread 1 then fails to acquire and returns
  without processing the symbol.
\<close>

lemma run_while_held_returns:
  "map pc (threads (schedule [0, 0, 0, 1, 1] (start [''BTCUSDT'', ''BTCUSDT''])))
     = [In_run_single_symbol, Finished]
   \<and> locks (schedule [0, 0, 0, 1, 1] (start [''BTCUSDT'', ''BTCUSDT''])) = [True]"
  by (simp add: schedule_def start_def step_def goto_def standardized_symbol_def
      upper_def upper_char_def)

text \<open>
  C10. The claim: \<^verbatim>\<open>run\<close> uses the uppercased symbol as the registry key, and so two
  invocations whose symbols differ only in letter case never process the symbol at the same
  time. The key is the uppercased symbol: \<^verbatim>\<open>run("btcusdt")\<close> and
  \<^verbatim>\<open>run("BTCUSDT")\<close> both use the key \<open>BTCUSDT\<close>, and the registry has no other
  key. Under the interleaving of C1 both are nevertheless inside
  \<^verbatim>\<open>run_single_symbol\<close> for \<open>BTCUSDT\<close> at once.
\<close>

theorem run_case_variants_both_process:
  "map standardized_symbol (threads (start [''btcusdt'', ''BTCUSDT''])) = [''BTCUSDT'', ''BTCUSDT'']
   \<and> processing (schedule [0, 1, 0, 0, 1, 1] (start [''btcusdt'', ''BTCUSDT''])) ''BTCUSDT'' = [0, 1]
   \<and> symbol_locks (schedule [0, 1, 0, 0, 1, 1] (start [''btcusdt'', ''BTCUSDT''])) ''btcusdt'' = None"
  by (simp add: processing_def schedule_def start_def step_def goto_def standardized_symbol_def
      upper_def upper_char_def numeral_2_eq_2)

subsection \<open>Evaluating the floats\<close>

lemma exponent_up_numeral:
  "exponent_up (numeral n) a = (if a < 2 then 0 else exponent_up (pred_numeral n) (a / 2) + 1)"
  by (simp add: numeral_eq_Suc)

lemma exponent_down_numeral:
  "exponent_down (numeral n) a =
     (if 1 \<le> a then 0 else exponent_down (pred_numeral n) (a * 2) - 1)"
  by (simp add: numeral_eq_Suc)

lemmas double_defs = double_of_def round_double_def ulp_def pow2_def binary_exponent_def
  round_to_even_def exponent_up_numeral exponent_down_numeral Let_def

lemma double_of_0: "double_of 0 = Some 0"
  by (simp add: double_defs)

lemma double_of_1: "double_of 1 = Some 1"
  by (simp add: double_defs)

lemma double_of_2: "double_of 2 = Some 2"
  by (simp add: double_defs)

lemma double_of_3: "double_of 3 = Some 3"
  by (simp add: double_defs)

lemma double_of_100: "double_of 100 = Some 100"
  by (simp add: double_defs)

lemma double_of_110: "double_of 110 = Some 110"
  by (simp add: double_defs)

lemma double_of_1e16: "double_of 10000000000000000 = Some 10000000000000000"
  by (simp add: double_defs)

text \<open>A tie: \<open>10 ^ 16 + 1\<close> lies halfway between two doubles and goes to the even one.\<close>

lemma double_of_1e16_1: "double_of 10000000000000001 = Some 10000000000000000"
  by (simp add: double_defs)

text \<open>
  The doubles that \<^verbatim>\<open>float\<close> reads from \<^verbatim>\<open>0.1\<close> and \<^verbatim>\<open>0.2\<close>, and their float sum,
  which Python prints as \<^verbatim>\<open>0.30000000000000004\<close>.
\<close>

lemma double_of_tenth: "double_of (1 / 10) = Some (3602879701896397 / 36028797018963968)"
  by (simp add: double_defs)

lemma double_of_fifth: "double_of (1 / 5) = Some (3602879701896397 / 18014398509481984)"
  by (simp add: double_defs)

lemma float_add_tenth_fifth:
  "float_add (3602879701896397 / 36028797018963968) (3602879701896397 / 18014398509481984)
     = Some (1351079888211149 / 4503599627370496)
   \<and> float_add (3602879701896397 / 36028797018963968) (3602879701896397 / 18014398509481984)
     \<noteq> Some (3602879701896397 / 36028797018963968 + 3602879701896397 / 18014398509481984)"
  by (simp add: float_add_def double_defs)

lemmas double_evals = double_of_0 double_of_1 double_of_2 double_of_3 double_of_100
  double_of_110 double_of_1e16 double_of_1e16_1

subsection \<open>Evaluating an iteration\<close>

lemmas iteration_defs = iteration_def refresh_def market_def managing_def prospecting_def
  publish_def select_branch_def build_position_details_def add_position_def float_of_def
  float_add_def double_evals
  new_entry_def pos_qty_def pos_price_def equity_fetch_due_def fetch_equity_def
  equity_refresh_interval_def top_of_book_def handle_ask_def handle_bid_def place_tp_def
  update_due_def long_update_args_def short_update_args_def symbol_data_of_def

lemmas string_defs = lower_def lower_char_def upper_def upper_char_def before_colon_def
  drop_slash_def

lemmas example_defs = raw_position_def example_config_def example_helpers_def
  example_inputs_def full_book_def empty_book_def initial_state_def

subsection \<open>The position snapshot\<close>




text \<open>
  C6. The claim: an entry of the snapshot with quantity 0 has no average price. One long
  record for \<open>BTCUSDT\<close> (size 1 at 100) and none for the short side: the short entry has
  quantity 0 and average price 0 (the initial value of line 157), the lookup of line 318
  returns 0 and not \<^verbatim>\<open>None\<close>, and the entry/exit call of that iteration receives the
  short quantity 0 with the short price 0.
\<close>

theorem empty_side_has_price_zero:
  "(case build_position_details [raw_position ''BTCUSDT'' ''Buy'' 1 100] of
      Inl e \<Rightarrow> False
    | Inr d \<Rightarrow> pos_qty d ''BTCUSDT'' short = 0 \<and> pos_price d ''BTCUSDT'' short = Some 0)
   \<and> map (\<lambda>a. (e_short_pos_qty a, e_short_pos_price a))
       (entry_exits (events (iteration example_config example_helpers ''BTCUSDT''
          (Some [''BTCUSDT'']) (initial_state 60 60)
          (example_inputs 10 [raw_position ''BTCUSDT'' ''Buy'' 1 100] (Some 1000) full_book))))
     = [(0, Some 0)]"
  by (simp add: iteration_defs string_defs example_defs entry_exits_def Let_def)

subsection \<open>The branches\<close>

lemma select_branch_not_prospecting:
  "select_branch symbol rotator open_symbols trading_allowed \<noteq> Prospecting"
  by (simp add: select_branch_def)

text \<open>
  C2. The claim: a symbol that is in the rotation list, has no open position and may be
  traded takes the second branch, which calls the initial-entry evaluator once. At that
  input (\<open>BTCUSDT\<close> in the rotation list, no open position, fewer open symbols than allowed)
  the condition of line 249 already holds, so the first branch runs: the iteration calls
  \<^verbatim>\<open>bybit_qs_entry_exit_eri\<close> once and \<^verbatim>\<open>bybit_initial_entry_with_qfl_mfi_and_eri\<close>
  not at all.
\<close>

theorem rotation_symbol_without_position_takes_first_branch:
  "select_branch ''BTCUSDT'' [''BTCUSDT''] [] True = Managing
   \<and> initial_entries (events (iteration example_config example_helpers ''BTCUSDT''
        (Some [''BTCUSDT'']) (initial_state 60 60)
        (example_inputs 10 [] (Some 1000) full_book))) = []
   \<and> length (entry_exits (events (iteration example_config example_helpers ''BTCUSDT''
        (Some [''BTCUSDT'']) (initial_state 60 60)
        (example_inputs 10 [] (Some 1000) full_book)))) = 1"
  by (simp add: iteration_defs string_defs example_defs initial_entries_def entry_exits_def Let_def)

subsection \<open>Take-profit rescheduling\<close>

text \<open>
  C5. The claim: the reschedule call receives the spread kept from the previous iteration as
  the previous value. Two iterations with a long position of 1 at 100: the first, at time 10,
  sees a five-minute spread of 1/2 and keeps it; the second, at time 100 (past the next
  update time 60), sees 4/5. Line 324 has overwritten the kept value before the call of line
  409, so the call receives 4/5 both as the current and as the previous spread.
\<close>

theorem reschedule_receives_current_spread_as_previous:
  "previous_five_minute_distance
     (state_after (iteration example_config example_helpers ''BTCUSDT'' (Some [''BTCUSDT''])
        (initial_state 60 60)
        ((example_inputs 10 [raw_position ''BTCUSDT'' ''Buy'' 1 100] (Some 1000) full_book)
           \<lparr>api_metrics :=
              (api_metrics (example_inputs 10 [] None full_book))\<lparr>metric_5mSpread := 1 / 2\<rparr>\<rparr>)))
     = Some (1 / 2)
   \<and> map (\<lambda>(sd, a). (sd, u_five_minute_distance a, u_previous_five_minute_distance a))
       (tp_updates (events (iteration example_config example_helpers ''BTCUSDT''
         (Some [''BTCUSDT''])
         (state_after (iteration example_config example_helpers ''BTCUSDT'' (Some [''BTCUSDT''])
            (initial_state 60 60)
            ((example_inputs 10 [raw_position ''BTCUSDT'' ''Buy'' 1 100] (Some 1000) full_book)
               \<lparr>api_metrics :=
                  (api_metrics (example_inputs 10 [] None full_book))\<lparr>metric_5mSpread := 1 / 2\<rparr>\<rparr>)))
         (example_inputs 100 [raw_position ''BTCUSDT'' ''Buy'' 1 100] (Some 1000) full_book))))
     = [(Long, 4 / 5, Some (4 / 5))]"
  by (simp add: iteration_defs string_defs example_defs tp_updates_def Let_def)

subsection \<open>Equity\<close>

text \<open>
  C9. When the position records are readable, the equity fetch is due and the balance call
  returns \<^verbatim>\<open>None\<close>, the iteration is exactly: fetch positions, fetch open orders, the two
  balance calls, sleep 10 seconds, next iteration. Nothing else happens in it: no branch, no
  order, no take-profit maintenance, no status record.
\<close>

theorem failed_equity_fetch_defers_iteration:
  assumes "build_position_details (open_position_data inp) = Inr d"
    and "equity_fetch_due st (time_time inp)"
    and "balance inp = None"
  shows "iteration cfg h symbol rotator st inp =
     \<lparr>control = Next_iteration,
      events = [Get_all_open_positions, Get_open_orders, Get_balance, Get_available_balance,
                Sleep 10],
      state_after = fetch_equity st inp\<rparr>"
  using assms by (simp add: iteration_def refresh_def fetch_equity_def)

theorem failed_equity_fetch_defers_iteration_witness:
  "events (iteration example_config example_helpers ''BTCUSDT'' (Some [''BTCUSDT''])
      (initial_state 60 60) (example_inputs 10 [] None full_book))
   = [Get_all_open_positions, Get_open_orders, Get_balance, Get_available_balance, Sleep 10]
   \<and> control (iteration example_config example_helpers ''BTCUSDT'' (Some [''BTCUSDT''])
      (initial_state 60 60) (example_inputs 10 [] None full_book)) = Next_iteration"
proof -
  have build: "build_position_details (open_position_data (example_inputs 10 [] None full_book))
      = Inr Map.empty"
    by (simp add: build_position_details_def example_inputs_def)
  have due: "equity_fetch_due (initial_state 60 60) (time_time (example_inputs 10 [] None full_book))"
    by (simp add: equity_fetch_due_def initial_state_def)
  have none: "balance (example_inputs 10 [] None full_book) = None"
    by (simp add: example_inputs_def)
  show ?thesis
    using failed_equity_fetch_defers_iteration [OF build due none] by simp
qed

subsection \<open>The phases of an iteration and the equity fetch\<close>

lemma equity_fetches_append [simp]:
  "equity_fetches (xs @ ys) = equity_fetches xs + equity_fetches ys"
  by (simp add: equity_fetches_def)

lemma equity_fetches_place_tp [simp]: "equity_fetches (place_tp sd q tp n) = 0"
  by (simp add: place_tp_def equity_fetches_def split: option.splits)

lemma managing_equity:
  assumes "managing cfg h symbol details st inp = (ev, st')"
  shows "equity_fetches ev = 0"
    and "total_equity st' = total_equity st"
    and "last_equity_fetch_time st' = last_equity_fetch_time st"
  using assms
  by (auto simp add: managing_def Let_def equity_fetches_def place_tp_def split: prod.splits option.splits)

lemma prospecting_equity:
  assumes "prospecting h symbol details ta st inp = (c, ev, st')"
  shows "equity_fetches ev = 0"
    and "total_equity st' = total_equity st"
    and "last_equity_fetch_time st' = last_equity_fetch_time st"
  using assms
  by (auto simp add: prospecting_def Let_def equity_fetches_def split: prod.splits if_splits)

lemma publish_equity:
  "equity_fetches (events (publish cfg symbol ev st)) = equity_fetches ev"
  "total_equity (state_after (publish cfg symbol ev st)) = total_equity st"
  "last_equity_fetch_time (state_after (publish cfg symbol ev st)) = last_equity_fetch_time st"
  "control (publish cfg symbol ev st) = Next_iteration"
  by (simp_all add: publish_def equity_fetches_def)

lemma market_equity_Inl:
  assumes "market cfg h symbol rotator os ev st inp = Inl out"
  shows "equity_fetches (events out) = equity_fetches ev"
    and "total_equity (state_after out) = total_equity st"
    and "last_equity_fetch_time (state_after out) = last_equity_fetch_time st"
    and "control out \<noteq> Next_iteration"
  using assms
  by (auto simp add: market_def Let_def equity_fetches_def handle_ask_def handle_bid_def
      split: if_splits option.splits)

lemma market_equity_Inr:
  assumes "market cfg h symbol rotator os ev st inp = Inr (r, ta, ev', st')"
  shows "equity_fetches ev' = equity_fetches ev"
    and "total_equity st' = total_equity st"
    and "last_equity_fetch_time st' = last_equity_fetch_time st"
  using assms
  by (auto simp add: market_def Let_def equity_fetches_def handle_ask_def handle_bid_def
      split: if_splits option.splits)

lemma refresh_equity_Inl:
  assumes "refresh h st inp = Inl out"
  shows "equity_fetches (events out) = (if fetched st inp then 1 else 0)"
    and "total_equity (state_after out) = (if fetched st inp then balance inp else total_equity st)"
    and "last_equity_fetch_time (state_after out) = (if fetched st inp then time_time inp else last_equity_fetch_time st)"
  using assms
  by (auto simp add: refresh_def Let_def equity_fetches_def fetch_equity_def fetched_def readable_def
      split: sum.splits if_splits)

lemma refresh_equity_Inr:
  assumes "refresh h st inp = Inr (d, os, ev, st')"
  shows "equity_fetches ev = (if fetched st inp then 1 else 0)"
    and "total_equity st' = (if fetched st inp then balance inp else total_equity st)"
    and "last_equity_fetch_time st' = (if fetched st inp then time_time inp else last_equity_fetch_time st)"
  using assms
  by (auto simp add: refresh_def Let_def equity_fetches_def fetch_equity_def fetched_def readable_def
      split: sum.splits if_splits)

lemma iteration_cases [case_names refresh_ends market_ends managing neither]:
  obtains out where "refresh h st inp = Inl out"
      and "iteration cfg h symbol rotator st inp = out"
  | d os ev st1 out where "refresh h st inp = Inr (d, os, ev, st1)"
      and "market cfg h symbol rotator os ev st1 inp = Inl out"
      and "iteration cfg h symbol rotator st inp = out"
  | d os ev st1 r ta ev2 st2 ev3 st3 where "refresh h st inp = Inr (d, os, ev, st1)"
      and "market cfg h symbol rotator os ev st1 inp = Inr (r, ta, ev2, st2)"
      and "select_branch symbol r os ta = Managing"
      and "managing cfg h symbol d st2 inp = (ev3, st3)"
      and "iteration cfg h symbol rotator st inp = publish cfg symbol (ev2 @ ev3) st3"
  | d os ev st1 r ta ev2 st2 where "refresh h st inp = Inr (d, os, ev, st1)"
      and "market cfg h symbol rotator os ev st1 inp = Inr (r, ta, ev2, st2)"
      and "select_branch symbol r os ta = Neither"
      and "iteration cfg h symbol rotator st inp = publish cfg symbol ev2 st2"
proof (cases "refresh h st inp")
  case (Inl out)
  then show ?thesis using that(1) by (simp add: iteration_def)
next
  case (Inr x)
  obtain d os ev st1 where x: "x = (d, os, ev, st1)" by (cases x)
  show ?thesis
  proof (cases "market cfg h symbol rotator os ev st1 inp")
    case (Inl out)
    then show ?thesis using that(2) Inr x by (simp add: iteration_def)
  next
    case mr: (Inr y)
    obtain r ta ev2 st2 where y: "y = (r, ta, ev2, st2)" by (cases y)
    show ?thesis
    proof (cases "select_branch symbol r os ta")
      case Managing
      obtain ev3 st3 where m: "managing cfg h symbol d st2 inp = (ev3, st3)"
        by (cases "managing cfg h symbol d st2 inp")
      show ?thesis
        using that(3) [OF Inr [unfolded x] mr [unfolded y] Managing m]
        by (simp add: iteration_def Inr x mr y Managing m)
    next
      case Prospecting
      then show ?thesis by (simp add: select_branch_not_prospecting)
    next
      case Neither
      show ?thesis
        using that(4) [OF Inr [unfolded x] mr [unfolded y] Neither]
        by (simp add: iteration_def Inr x mr y Neither)
    qed
  qed
qed

lemma iteration_equity:
  "equity_fetches (events (iteration cfg h symbol rotator st inp)) = (if fetched st inp then 1 else 0)
   \<and> total_equity (state_after (iteration cfg h symbol rotator st inp))
       = (if fetched st inp then balance inp else total_equity st)
   \<and> last_equity_fetch_time (state_after (iteration cfg h symbol rotator st inp))
       = (if fetched st inp then time_time inp else last_equity_fetch_time st)"
proof (cases rule: iteration_cases [of h st inp cfg symbol rotator])
  case (refresh_ends out)
  then show ?thesis using refresh_equity_Inl [of h st inp out] by simp
next
  case (market_ends d os ev st1 out)
  then show ?thesis
    using refresh_equity_Inr [of h st inp d os ev st1]
      market_equity_Inl [of cfg h symbol rotator os ev st1 inp out] by simp
next
  case (managing d os ev st1 r ta ev2 st2 ev3 st3)
  then show ?thesis
    using refresh_equity_Inr [of h st inp d os ev st1]
      market_equity_Inr [of cfg h symbol rotator os ev st1 inp r ta ev2 st2]
      managing_equity [of cfg h symbol d st2 inp ev3 st3]
    by (simp add: publish_equity)
next
  case (neither d os ev st1 r ta ev2 st2)
  then show ?thesis
    using refresh_equity_Inr [of h st inp d os ev st1]
      market_equity_Inr [of cfg h symbol rotator os ev st1 inp r ta ev2 st2]
    by (simp add: publish_equity)
qed

lemma run_loop_no_fetch:
  assumes "total_equity st \<noteq> None"
    and "\<forall>inp \<in> set ins. time_time inp - last_equity_fetch_time st \<le> equity_refresh_interval"
  shows "\<forall>(inp, out) \<in> set (run_loop cfg h symbol rotator st ins). equity_fetches (events out) = 0"
  using assms
proof (induction ins arbitrary: st)
  case Nil
  then show ?case by simp
next
  case (Cons inp ins)
  have nf: "\<not> fetched st inp"
    using Cons.prems by (auto simp add: fetched_def equity_fetch_due_def)
  note it = iteration_equity [of cfg h symbol rotator st inp]
  have st': "total_equity (state_after (iteration cfg h symbol rotator st inp)) \<noteq> None"
    "last_equity_fetch_time (state_after (iteration cfg h symbol rotator st inp)) = last_equity_fetch_time st"
    using it nf Cons.prems by simp_all
  have "\<forall>(inp, out) \<in> set (run_loop cfg h symbol rotator (state_after (iteration cfg h symbol rotator st inp)) ins).
          equity_fetches (events out) = 0"
    using Cons.IH [OF st'(1)] Cons.prems(2) st'(2) by simp
  then show ?case using it nf by (simp add: Let_def)
qed


lemma equity_fetches_pos: "Get_balance \<in> set evs \<longleftrightarrow> 0 < equity_fetches evs"
  by (induction evs) (auto simp add: equity_fetches_def)

lemma run_loop_total_fetches_0:
  assumes "total_equity st \<noteq> None"
    and "\<forall>inp \<in> set ins. time_time inp - last_equity_fetch_time st \<le> equity_refresh_interval"
  shows "total_fetches (run_loop cfg h symbol rotator st ins) = 0"
  using run_loop_no_fetch [OF assms, of cfg h symbol rotator]
  by (auto simp add: total_fetches_def)

text \<open>
  C8. In an iteration whose position records are readable, the balance is fetched if and only
  if the total equity is unset or more than 1800 seconds have passed since the last fetch.
  While the equity is set and the iterations stay within 1800 seconds of the last fetch, no
  iteration of the loop fetches it. And when a fetch is due and succeeds, the loop run from
  that iteration through any iterations within the next 1800 seconds fetches exactly once.
\<close>

theorem equity_fetch_gate:
  "(readable inp \<longrightarrow>
      (Get_balance \<in> set (events (iteration cfg h symbol rotator st inp))
       \<longleftrightarrow> total_equity st = None \<or> time_time inp - last_equity_fetch_time st > 1800))
   \<and> (total_equity st \<noteq> None \<and> (\<forall>i \<in> set ins. time_time i - last_equity_fetch_time st \<le> 1800)
        \<longrightarrow> (\<forall>(i, out) \<in> set (run_loop cfg h symbol rotator st ins). Get_balance \<notin> set (events out)))
   \<and> (readable inp \<and> equity_fetch_due st (time_time inp) \<and> balance inp \<noteq> None
        \<and> (\<forall>i \<in> set ins. time_time i - time_time inp \<le> 1800)
        \<longrightarrow> total_fetches (run_loop cfg h symbol rotator st (inp # ins)) = 1)"
proof (intro conjI impI)
  assume "readable inp"
  then show "Get_balance \<in> set (events (iteration cfg h symbol rotator st inp))
       \<longleftrightarrow> total_equity st = None \<or> time_time inp - last_equity_fetch_time st > 1800"
    using iteration_equity [of cfg h symbol rotator st inp]
    by (auto simp add: equity_fetches_pos fetched_def equity_fetch_due_def equity_refresh_interval_def)
next
  assume a: "total_equity st \<noteq> None \<and> (\<forall>i \<in> set ins. time_time i - last_equity_fetch_time st \<le> 1800)"
  show "\<forall>(i, out) \<in> set (run_loop cfg h symbol rotator st ins). Get_balance \<notin> set (events out)"
    using run_loop_no_fetch [of st ins cfg h symbol rotator] a
    by (auto simp add: equity_fetches_pos equity_refresh_interval_def)
next
  assume a: "readable inp \<and> equity_fetch_due st (time_time inp) \<and> balance inp \<noteq> None
        \<and> (\<forall>i \<in> set ins. time_time i - time_time inp \<le> 1800)"
  let ?out = "iteration cfg h symbol rotator st inp"
  have f: "fetched st inp" using a by (simp add: fetched_def)
  note it = iteration_equity [of cfg h symbol rotator st inp]
  have one: "equity_fetches (events ?out) = 1" using it f by simp
  have st': "total_equity (state_after ?out) \<noteq> None"
    "last_equity_fetch_time (state_after ?out) = time_time inp"
    using it f a by simp_all
  have rest: "total_fetches (run_loop cfg h symbol rotator (state_after ?out) ins) = 0"
    using run_loop_total_fetches_0 [OF st'(1), of ins cfg h symbol rotator] a st'(2)
    by (simp add: equity_refresh_interval_def)
  show "total_fetches (run_loop cfg h symbol rotator st (inp # ins)) = 1"
    using one rest by (simp add: total_fetches_def Let_def)
qed

theorem equity_fetch_gate_witness:
  "Get_balance \<in> set (events (iteration example_config example_helpers ''BTCUSDT''
      (Some [''BTCUSDT'']) (initial_state 60 60) (example_inputs 10 [] (Some 1000) full_book)))
   \<and> total_fetches (run_loop example_config example_helpers ''BTCUSDT'' (Some [''BTCUSDT''])
        (initial_state 60 60)
        [example_inputs 10 [] (Some 1000) full_book, example_inputs 900 [] (Some 1000) full_book,
         example_inputs 1810 [] (Some 1000) full_book]) = 1"
proof -
  let ?inp = "example_inputs 10 [] (Some 1000) full_book"
  let ?ins = "[example_inputs 900 [] (Some 1000) full_book,
               example_inputs 1810 [] (Some 1000) full_book]"
  have r: "readable ?inp"
    by (simp add: readable_def build_position_details_def example_inputs_def)
  have due: "equity_fetch_due (initial_state 60 60) (time_time ?inp)"
    by (simp add: equity_fetch_due_def initial_state_def)
  have unset: "total_equity (initial_state 60 60) = None"
    by (simp add: initial_state_def)
  have bal: "balance ?inp \<noteq> None"
    by (simp add: example_inputs_def)
  have within: "\<forall>i \<in> set ?ins. time_time i - time_time ?inp \<le> 1800"
    by (simp add: example_inputs_def)
  note gate = equity_fetch_gate [of ?inp example_config example_helpers "''BTCUSDT''"
      "Some [''BTCUSDT'']" "initial_state 60 60" ?ins]
  show ?thesis using gate r due unset bal within by blast
qed

subsection \<open>Best ask and best bid\<close>

lemma refresh_ask_Inl:
  assumes "refresh h st inp = Inl out"
  shows "Get_orderbook \<notin> set (events out) \<and> last_known_ask (state_after out) = last_known_ask st"
  using assms
  by (auto simp add: refresh_def Let_def fetch_equity_def split: sum.splits if_splits)

lemma refresh_ask_Inr:
  assumes "refresh h st inp = Inr (d, os, ev, st')"
  shows "Get_orderbook \<notin> set ev \<and> last_known_ask st' = last_known_ask st"
  using assms
  by (auto simp add: refresh_def Let_def fetch_equity_def split: sum.splits if_splits)

lemma market_ask_Inl:
  assumes "market cfg h symbol rotator os ev st inp = Inl out" and "Get_orderbook \<notin> set ev"
  shows "(Get_orderbook \<in> set (events out)
            \<and> best_ask_price (state_after out) = live_or (asks (orderbook inp)) (last_known_ask st symbol)
            \<and> last_known_ask (state_after out) symbol = live_or (asks (orderbook inp)) (last_known_ask st symbol))
         \<or> (Get_orderbook \<notin> set (events out) \<and> last_known_ask (state_after out) = last_known_ask st)"
  using assms
  by (auto simp add: market_def Let_def handle_ask_def handle_bid_def live_or_def
      split: if_splits option.splits)

lemma market_ask_Inr:
  assumes "market cfg h symbol rotator os ev st inp = Inr (r, ta, ev', st')"
  shows "Get_orderbook \<in> set ev'
         \<and> best_ask_price st' = live_or (asks (orderbook inp)) (last_known_ask st symbol)
         \<and> last_known_ask st' symbol = live_or (asks (orderbook inp)) (last_known_ask st symbol)"
  using assms
  by (auto simp add: market_def Let_def handle_ask_def handle_bid_def live_or_def
      split: if_splits option.splits)

lemma managing_ask:
  assumes "managing cfg h symbol details st inp = (ev, st')"
  shows "best_ask_price st' = best_ask_price st \<and> last_known_ask st' = last_known_ask st"
  using assms by (auto simp add: managing_def Let_def split: prod.splits)

lemma publish_ask:
  "best_ask_price (state_after (publish cfg symbol ev st)) = best_ask_price st
   \<and> last_known_ask (state_after (publish cfg symbol ev st)) = last_known_ask st
   \<and> (Get_orderbook \<in> set (events (publish cfg symbol ev st)) \<longleftrightarrow> Get_orderbook \<in> set ev)"
  by (simp add: publish_def)

lemma iteration_ask:
  "(Get_orderbook \<in> set (events (iteration cfg h symbol rotator st inp))
      \<and> best_ask_price (state_after (iteration cfg h symbol rotator st inp))
          = live_or (asks (orderbook inp)) (last_known_ask st symbol)
      \<and> last_known_ask (state_after (iteration cfg h symbol rotator st inp)) symbol
          = live_or (asks (orderbook inp)) (last_known_ask st symbol))
   \<or> (Get_orderbook \<notin> set (events (iteration cfg h symbol rotator st inp))
      \<and> last_known_ask (state_after (iteration cfg h symbol rotator st inp)) = last_known_ask st)"
proof (cases rule: iteration_cases [of h st inp cfg symbol rotator])
  case (refresh_ends out)
  then show ?thesis using refresh_ask_Inl [of h st inp out] by simp
next
  case (market_ends d os ev st1 out)
  then show ?thesis
    using refresh_ask_Inr [of h st inp d os ev st1]
      market_ask_Inl [of cfg h symbol rotator os ev st1 inp out] by auto
next
  case (managing d os ev st1 r ta ev2 st2 ev3 st3)
  then show ?thesis
    using refresh_ask_Inr [of h st inp d os ev st1]
      market_ask_Inr [of cfg h symbol rotator os ev st1 inp r ta ev2 st2]
      managing_ask [of cfg h symbol d st2 inp ev3 st3]
    by (simp add: publish_ask)
next
  case (neither d os ev st1 r ta ev2 st2)
  then show ?thesis
    using refresh_ask_Inr [of h st inp d os ev st1]
      market_ask_Inr [of cfg h symbol rotator os ev st1 inp r ta ev2 st2]
    by (simp add: publish_ask)
qed

lemma live_asks_Cons:
  "live_asks ((inp, out) # tr) =
     (if Get_orderbook \<in> set (events out)
      then (case top_of_book (asks (orderbook inp)) of Some p \<Rightarrow> [p] | None \<Rightarrow> [])
      else []) @ live_asks tr"
  by (simp add: live_asks_def)

lemma run_loop_ask:
  assumes "run_loop cfg h symbol rotator st ins = tr @ [(inp, out)]"
  shows "(Get_orderbook \<in> set (events out) \<longrightarrow>
            best_ask_price (state_after out)
              = live_or (asks (orderbook inp))
                  (case latest (live_asks tr) of Some a \<Rightarrow> Some a | None \<Rightarrow> last_known_ask st symbol))
         \<and> last_known_ask (state_after out) symbol
              = (case latest (live_asks (tr @ [(inp, out)])) of
                   Some a \<Rightarrow> Some a | None \<Rightarrow> last_known_ask st symbol)"
  using assms
proof (induction ins arbitrary: st tr)
  case Nil
  then show ?case by simp
next
  case (Cons i ins)
  let ?o1 = "iteration cfg h symbol rotator st i"
  note it = iteration_ask [of cfg h symbol rotator st i]
  show ?case
  proof (cases tr)
    case Nil
    then have eq: "inp = i" "out = ?o1"
      using Cons.prems by (auto simp add: Let_def)
    show ?thesis
      using it unfolding Nil eq
      by (auto simp add: live_asks_Cons live_asks_def latest_def live_or_def split: option.splits)
  next
    case (Cons x tr')
    then have x: "x = (i, ?o1)"
      and rest: "run_loop cfg h symbol rotator (state_after ?o1) ins = tr' @ [(inp, out)]"
      using Cons.prems by (auto simp add: Let_def split: if_splits)
    note ih = Cons.IH [OF rest]
    have app: "\<And>xs ys. latest (xs @ ys) = (case latest ys of Some a \<Rightarrow> Some a | None \<Rightarrow> latest xs)"
      by (simp add: latest_def)
    have st1: "last_known_ask (state_after ?o1) symbol
        = (case latest (live_asks [(i, ?o1)]) of Some a \<Rightarrow> Some a | None \<Rightarrow> last_known_ask st symbol)"
      using it by (auto simp add: live_asks_def latest_def live_or_def split: option.splits)
    have split1: "live_asks (x # tr') = live_asks [(i, ?o1)] @ live_asks tr'"
      "live_asks ((x # tr') @ [(inp, out)]) = live_asks [(i, ?o1)] @ live_asks (tr' @ [(inp, out)])"
      by (simp_all add: x live_asks_def)
    show ?thesis
      using ih unfolding Cons split1 app st1
      by (auto split: option.splits)
  qed
qed

lemma refresh_bid_Inl:
  assumes "refresh h st inp = Inl out"
  shows "Get_orderbook \<notin> set (events out) \<and> last_known_bid (state_after out) = last_known_bid st"
  using assms
  by (auto simp add: refresh_def Let_def fetch_equity_def split: sum.splits if_splits)

lemma refresh_bid_Inr:
  assumes "refresh h st inp = Inr (d, os, ev, st')"
  shows "Get_orderbook \<notin> set ev \<and> last_known_bid st' = last_known_bid st"
  using assms
  by (auto simp add: refresh_def Let_def fetch_equity_def split: sum.splits if_splits)

lemma market_bid_Inl:
  assumes "market cfg h symbol rotator os ev st inp = Inl out" and "Get_orderbook \<notin> set ev"
  shows "(Get_orderbook \<in> set (events out)
            \<and> best_bid_price (state_after out) = live_or (bids (orderbook inp)) (last_known_bid st symbol)
            \<and> last_known_bid (state_after out) symbol = live_or (bids (orderbook inp)) (last_known_bid st symbol))
         \<or> (Get_orderbook \<notin> set (events out) \<and> last_known_bid (state_after out) = last_known_bid st)"
  using assms
  by (auto simp add: market_def Let_def handle_ask_def handle_bid_def live_or_def
      split: if_splits option.splits)

lemma market_bid_Inr:
  assumes "market cfg h symbol rotator os ev st inp = Inr (r, ta, ev', st')"
  shows "Get_orderbook \<in> set ev'
         \<and> best_bid_price st' = live_or (bids (orderbook inp)) (last_known_bid st symbol)
         \<and> last_known_bid st' symbol = live_or (bids (orderbook inp)) (last_known_bid st symbol)"
  using assms
  by (auto simp add: market_def Let_def handle_ask_def handle_bid_def live_or_def
      split: if_splits option.splits)

lemma managing_bid:
  assumes "managing cfg h symbol details st inp = (ev, st')"
  shows "best_bid_price st' = best_bid_price st \<and> last_known_bid st' = last_known_bid st"
  using assms by (auto simp add: managing_def Let_def split: prod.splits)

lemma publish_bid:
  "best_bid_price (state_after (publish cfg symbol ev st)) = best_bid_price st
   \<and> last_known_bid (state_after (publish cfg symbol ev st)) = last_known_bid st
   \<and> (Get_orderbook \<in> set (events (publish cfg symbol ev st)) \<longleftrightarrow> Get_orderbook \<in> set ev)"
  by (simp add: publish_def)

lemma iteration_bid:
  "(Get_orderbook \<in> set (events (iteration cfg h symbol rotator st inp))
      \<and> best_bid_price (state_after (iteration cfg h symbol rotator st inp))
          = live_or (bids (orderbook inp)) (last_known_bid st symbol)
      \<and> last_known_bid (state_after (iteration cfg h symbol rotator st inp)) symbol
          = live_or (bids (orderbook inp)) (last_known_bid st symbol))
   \<or> (Get_orderbook \<notin> set (events (iteration cfg h symbol rotator st inp))
      \<and> last_known_bid (state_after (iteration cfg h symbol rotator st inp)) = last_known_bid st)"
proof (cases rule: iteration_cases [of h st inp cfg symbol rotator])
  case (refresh_ends out)
  then show ?thesis using refresh_bid_Inl [of h st inp out] by simp
next
  case (market_ends d os ev st1 out)
  then show ?thesis
    using refresh_bid_Inr [of h st inp d os ev st1]
      market_bid_Inl [of cfg h symbol rotator os ev st1 inp out] by auto
next
  case (managing d os ev st1 r ta ev2 st2 ev3 st3)
  then show ?thesis
    using refresh_bid_Inr [of h st inp d os ev st1]
      market_bid_Inr [of cfg h symbol rotator os ev st1 inp r ta ev2 st2]
      managing_bid [of cfg h symbol d st2 inp ev3 st3]
    by (simp add: publish_bid)
next
  case (neither d os ev st1 r ta ev2 st2)
  then show ?thesis
    using refresh_bid_Inr [of h st inp d os ev st1]
      market_bid_Inr [of cfg h symbol rotator os ev st1 inp r ta ev2 st2]
    by (simp add: publish_bid)
qed

lemma live_bids_Cons:
  "live_bids ((inp, out) # tr) =
     (if Get_orderbook \<in> set (events out)
      then (case top_of_book (bids (orderbook inp)) of Some p \<Rightarrow> [p] | None \<Rightarrow> [])
      else []) @ live_bids tr"
  by (simp add: live_bids_def)

lemma run_loop_bid:
  assumes "run_loop cfg h symbol rotator st ins = tr @ [(inp, out)]"
  shows "(Get_orderbook \<in> set (events out) \<longrightarrow>
            best_bid_price (state_after out)
              = live_or (bids (orderbook inp))
                  (case latest (live_bids tr) of Some a \<Rightarrow> Some a | None \<Rightarrow> last_known_bid st symbol))
         \<and> last_known_bid (state_after out) symbol
              = (case latest (live_bids (tr @ [(inp, out)])) of
                   Some a \<Rightarrow> Some a | None \<Rightarrow> last_known_bid st symbol)"
  using assms
proof (induction ins arbitrary: st tr)
  case Nil
  then show ?case by simp
next
  case (Cons i ins)
  let ?o1 = "iteration cfg h symbol rotator st i"
  note it = iteration_bid [of cfg h symbol rotator st i]
  show ?case
  proof (cases tr)
    case Nil
    then have eq: "inp = i" "out = ?o1"
      using Cons.prems by (auto simp add: Let_def)
    show ?thesis
      using it unfolding Nil eq
      by (auto simp add: live_bids_Cons live_bids_def latest_def live_or_def split: option.splits)
  next
    case (Cons x tr')
    then have x: "x = (i, ?o1)"
      and rest: "run_loop cfg h symbol rotator (state_after ?o1) ins = tr' @ [(inp, out)]"
      using Cons.prems by (auto simp add: Let_def split: if_splits)
    note ih = Cons.IH [OF rest]
    have app: "\<And>xs ys. latest (xs @ ys) = (case latest ys of Some a \<Rightarrow> Some a | None \<Rightarrow> latest xs)"
      by (simp add: latest_def)
    have st1: "last_known_bid (state_after ?o1) symbol
        = (case latest (live_bids [(i, ?o1)]) of Some a \<Rightarrow> Some a | None \<Rightarrow> last_known_bid st symbol)"
      using it by (auto simp add: live_bids_def latest_def live_or_def split: option.splits)
    have split1: "live_bids (x # tr') = live_bids [(i, ?o1)] @ live_bids tr'"
      "live_bids ((x # tr') @ [(inp, out)]) = live_bids [(i, ?o1)] @ live_bids (tr' @ [(inp, out)])"
      by (simp_all add: x live_bids_def)
    show ?thesis
      using ih unfolding Cons split1 app st1
      by (auto split: option.splits)
  qed
qed

text \<open>
  C7. Take any iteration of a run of the loop that fetches the order book, on a strategy
  object that had no last known ask or bid for the symbol when the loop started. If the ask
  side is non-empty, the best ask is its top price, and that price is the last known ask
  afterwards. If the ask side is empty or missing, the best ask is the top ask of the most
  recent earlier iteration of the run that saw a non-empty ask side, and \<open>None\<close> if there
  was none. The same holds for the bid side.
\<close>

theorem best_price_fallback:
  assumes "run_loop cfg h symbol rotator st ins = tr @ [(inp, out)]"
    and "Get_orderbook \<in> set (events out)"
    and "last_known_ask st symbol = None"
    and "last_known_bid st symbol = None"
  shows "best_ask_price (state_after out) = live_or (asks (orderbook inp)) (latest (live_asks tr))
     \<and> last_known_ask (state_after out) symbol = latest (live_asks (tr @ [(inp, out)]))
     \<and> best_bid_price (state_after out) = live_or (bids (orderbook inp)) (latest (live_bids tr))
     \<and> last_known_bid (state_after out) symbol = latest (live_bids (tr @ [(inp, out)]))"
  using run_loop_ask [OF assms(1)] run_loop_bid [OF assms(1)] assms(2,3,4)
  by (auto split: option.splits)

theorem best_price_fallback_witness:
  "best_ask_price (state_after (snd (last (run_loop example_config example_helpers ''BTCUSDT''
       (Some [''BTCUSDT'']) (initial_state 60 60)
       [example_inputs 10 [] (Some 1000) full_book, example_inputs 50 [] (Some 1000) empty_book]))))
     = Some 100
   \<and> best_bid_price (state_after (snd (last (run_loop example_config example_helpers ''BTCUSDT''
       (Some [''BTCUSDT'']) (initial_state 60 60)
       [example_inputs 10 [] (Some 1000) full_book, example_inputs 50 [] (Some 1000) empty_book]))))
     = Some 99
   \<and> best_ask_price (state_after (snd (last (run_loop example_config example_helpers ''BTCUSDT''
       (Some [''BTCUSDT'']) (initial_state 60 60)
       [example_inputs 10 [] (Some 1000) empty_book]))))
     = None"
proof -
  let ?i1 = "example_inputs 10 [] (Some 1000) full_book"
  let ?i2 = "example_inputs 50 [] (Some 1000) empty_book"
  let ?i3 = "example_inputs 10 [] (Some 1000) empty_book"
  let ?it = "iteration example_config example_helpers ''BTCUSDT'' (Some [''BTCUSDT''])"
  let ?o1 = "?it (initial_state 60 60) ?i1"
  let ?o2 = "?it (state_after ?o1) ?i2"
  let ?o3 = "?it (initial_state 60 60) ?i3"
  have c1: "control ?o1 = Next_iteration" and e1: "Get_orderbook \<in> set (events ?o1)"
    by (simp_all add: iteration_defs string_defs example_defs Let_def)
  have e2: "Get_orderbook \<in> set (events ?o2)"
    by (simp add: iteration_defs string_defs example_defs Let_def)
  have e3: "Get_orderbook \<in> set (events ?o3)"
    by (simp add: iteration_defs string_defs example_defs Let_def)
  have run2: "run_loop example_config example_helpers ''BTCUSDT'' (Some [''BTCUSDT''])
      (initial_state 60 60) [?i1, ?i2] = [(?i1, ?o1)] @ [(?i2, ?o2)]"
    using c1 by (simp add: Let_def)
  have run1: "run_loop example_config example_helpers ''BTCUSDT'' (Some [''BTCUSDT''])
      (initial_state 60 60) [?i3] = [] @ [(?i3, ?o3)]"
    by (simp add: Let_def)
  have lk: "last_known_ask (initial_state 60 60) ''BTCUSDT'' = None"
    "last_known_bid (initial_state 60 60) ''BTCUSDT'' = None"
    by (simp_all add: initial_state_def)
  have seen: "live_asks [(?i1, ?o1)] = [100]" "live_bids [(?i1, ?o1)] = [99]"
    using e1 by (simp_all add: live_asks_def live_bids_def top_of_book_def example_inputs_def full_book_def)
  have books: "asks (orderbook ?i2) = Some []" "bids (orderbook ?i2) = None"
    "asks (orderbook ?i3) = Some []"
    by (simp_all add: example_inputs_def empty_book_def)
  show ?thesis
    using best_price_fallback [OF run2 e2 lk] best_price_fallback [OF run1 e3 lk]
    unfolding run2 run1 seen books
    by (simp add: live_or_def top_of_book_def latest_def live_asks_def)
qed

subsection \<open>Take-profit placement\<close>

lemma tp_placements_append [simp]:
  "tp_placements (xs @ ys) = tp_placements xs @ tp_placements ys"
  by (simp add: tp_placements_def)

lemma tp_effect_placed: "tp_effect e b sd = b sd + placed sd [e]"
  by (cases e) (simp_all add: tp_effect_def placed_def tp_placements_def)

lemma placed_Cons: "placed sd (e # evs) = placed sd [e] + placed sd evs"
  by (simp add: placed_def tp_placements_def)

lemma fold_tp_effect: "fold tp_effect evs b sd = b sd + placed sd evs"
proof (induction evs arbitrary: b)
  case Nil
  then show ?case by (simp add: placed_def tp_placements_def)
next
  case (Cons e evs)
  have "fold tp_effect (e # evs) b sd = tp_effect e b sd + placed sd evs"
    using Cons.IH [of "tp_effect e b"] by simp
  also have "\<dots> = b sd + placed sd [e] + placed sd evs"
    by (simp only: tp_effect_placed)
  also have "\<dots> = b sd + placed sd (e # evs)"
    by (simp only: placed_Cons [of sd e evs] add.assoc)
  finally show ?case .
qed

lemma tp_placements_place_tp:
  "tp_placements (place_tp sd q tp n) = (case tp of Some p \<Rightarrow> if 0 < q \<and> n = 0 then [(sd, q, p)] else [] | None \<Rightarrow> [])"
  by (simp add: place_tp_def tp_placements_def split: option.splits)

lemma refresh_tp_Inl:
  assumes "refresh h st inp = Inl out"
  shows "tp_placements (events out) = []"
  using assms
  by (auto simp add: refresh_def Let_def tp_placements_def split: sum.splits if_splits)

lemma refresh_tp_Inr:
  assumes "refresh h st inp = Inr (d, os, ev, st')"
  shows "tp_placements ev = [] \<and> build_position_details (open_position_data inp) = Inr d
     \<and> previous_five_minute_distance st' = previous_five_minute_distance st"
  using assms
  by (auto simp add: refresh_def Let_def tp_placements_def fetch_equity_def split: sum.splits if_splits)

lemma market_tp_Inl:
  assumes "market cfg h symbol rotator os ev st inp = Inl out"
  shows "tp_placements (events out) = tp_placements ev"
  using assms
  by (auto simp add: market_def Let_def tp_placements_def split: if_splits option.splits)

lemma market_tp_Inr:
  assumes "market cfg h symbol rotator os ev st inp = Inr (r, ta, ev', st')"
  shows "tp_placements ev' = tp_placements ev
     \<and> previous_five_minute_distance st' = previous_five_minute_distance st"
  using assms
  by (auto simp add: market_def Let_def tp_placements_def handle_ask_def handle_bid_def
      split: if_splits option.splits)

lemma managing_tp:
  assumes "managing cfg h symbol d st inp = (ev, st')"
  shows "tp_placements ev =
     tp_placements (place_tp Long (pos_qty d symbol long) (take_profit_target h symbol d st inp Long)
         (long_tp_count (tp_order_counts inp)))
     @ tp_placements (place_tp Short (pos_qty d symbol short) (take_profit_target h symbol d st inp Short)
         (short_tp_count (tp_order_counts inp)))"
  using assms
  by (auto simp add: managing_def Let_def take_profit_target_def tp_placements_def split: prod.splits)

lemma publish_tp: "tp_placements (events (publish cfg symbol ev st)) = tp_placements ev"
  by (auto simp add: publish_def tp_placements_def)

lemma iteration_tp:
  "tp_placements (events (iteration cfg h symbol rotator st inp)) = []
   \<or> (\<exists>d. build_position_details (open_position_data inp) = Inr d
        \<and> tp_placements (events (iteration cfg h symbol rotator st inp)) =
            tp_placements (place_tp Long (pos_qty d symbol long) (take_profit_target h symbol d st inp Long)
              (long_tp_count (tp_order_counts inp)))
            @ tp_placements (place_tp Short (pos_qty d symbol short) (take_profit_target h symbol d st inp Short)
              (short_tp_count (tp_order_counts inp))))"
proof (cases rule: iteration_cases [of h st inp cfg symbol rotator])
  case (refresh_ends out)
  then show ?thesis using refresh_tp_Inl [of h st inp out] by simp
next
  case (market_ends d os ev st1 out)
  then show ?thesis
    using refresh_tp_Inr [of h st inp d os ev st1]
      market_tp_Inl [of cfg h symbol rotator os ev st1 inp out] by simp
next
  case (managing d os ev st1 r ta ev2 st2 ev3 st3)
  have "take_profit_target h symbol d st2 inp = take_profit_target h symbol d st inp"
    using refresh_tp_Inr [OF managing(1)] market_tp_Inr [OF managing(2)]
    by (simp add: take_profit_target_def fun_eq_iff)
  then show ?thesis
    using managing refresh_tp_Inr [OF managing(1)] market_tp_Inr [OF managing(2)]
      managing_tp [OF managing(4)]
    by (simp add: publish_tp)
next
  case (neither d os ev st1 r ta ev2 st2)
  then show ?thesis
    using refresh_tp_Inr [of h st inp d os ev st1]
      market_tp_Inr [of cfg h symbol rotator os ev st1 inp r ta ev2 st2]
    by (simp add: publish_tp)
qed

lemma iteration_placed:
  "placed sd (events (iteration cfg h symbol rotator st inp))
     \<le> (if tp_count_of sd (tp_order_counts inp) = 0 then 1 else 0)"
  using iteration_tp [of cfg h symbol rotator st inp]
  by (cases sd) (auto simp add: placed_def tp_placements_place_tp tp_count_of_def split: option.splits)

lemma iteration_placement_guard:
  assumes "(sd, q, p) \<in> set (tp_placements (events (iteration cfg h symbol rotator st inp)))"
  shows "\<exists>d. build_position_details (open_position_data inp) = Inr d
     \<and> q = pos_qty d symbol (entry_of sd) \<and> 0 < q
     \<and> take_profit_target h symbol d st inp sd = Some p
     \<and> tp_count_of sd (tp_order_counts inp) = 0"
  using iteration_tp [of cfg h symbol rotator st inp] assms
  by (cases sd) (auto simp add: tp_placements_place_tp tp_count_of_def entry_of_def split: option.splits if_splits)

lemma iteration_on_exchange_le:
  assumes "\<forall>sd. b sd \<le> 1" and "iteration_on_exchange cfg h symbol rotator st b x = (out, b')"
  shows "\<forall>sd. b' sd \<le> 1"
proof
  fix sd
  obtain inp filled where x: "x = (inp, filled)" by (cases x)
  let ?b1 = "after_fills b filled"
  let ?inp = "inp\<lparr>tp_order_counts := counts_of ?b1\<rparr>"
  have b1: "?b1 sd \<le> 1" using assms(1) [rule_format, of sd] by (simp add: after_fills_def)
  have cnt: "tp_count_of sd (tp_order_counts ?inp) = ?b1 sd"
    by (cases sd) (simp_all add: tp_count_of_def counts_of_def)
  have "b' sd = ?b1 sd + placed sd (events (iteration cfg h symbol rotator st ?inp))"
    using assms(2) by (auto simp add: iteration_on_exchange_def x Let_def fold_tp_effect)
  then show "b' sd \<le> 1"
    using iteration_placed [of sd cfg h symbol rotator st ?inp] b1 unfolding cnt
    by (auto split: if_splits)
qed

lemma run_on_exchange_le:
  assumes "\<forall>sd. b sd \<le> 1"
  shows "run_on_exchange cfg h symbol rotator st b xs sd \<le> 1"
  using assms
proof (induction xs arbitrary: st b)
  case Nil
  then show ?case by simp
next
  case (Cons x xs)
  obtain out b' where it: "iteration_on_exchange cfg h symbol rotator st b x = (out, b')"
    by (cases "iteration_on_exchange cfg h symbol rotator st b x")
  have b': "\<forall>sd. b' sd \<le> 1" using iteration_on_exchange_le [OF Cons.prems it] .
  show ?case
    using Cons.IH [OF b'] b' by (simp add: it)
qed

text \<open>
  C3. Against the exchange's book of take-profit orders: if no side has more than one active
  take-profit order when a run of the loop starts, no side has more than one after it,
  whatever the iterations receive and whatever is filled in between. And an iteration places
  a take-profit order on a side only if the position records are readable, the side's
  quantity in the snapshot is positive, the target computed for the side is not
  \<^verbatim>\<open>None\<close>, and the count of open take-profit orders read for that side is zero.
\<close>

theorem take_profit_singleton:
  "((\<forall>s. b s \<le> 1) \<longrightarrow> run_on_exchange cfg h symbol rotator st b xs sd \<le> 1)
   \<and> ((sd, q, p) \<in> set (tp_placements (events (iteration cfg h symbol rotator st inp))) \<longrightarrow>
        (\<exists>d. build_position_details (open_position_data inp) = Inr d
           \<and> q = pos_qty d symbol (entry_of sd) \<and> 0 < q
           \<and> take_profit_target h symbol d st inp sd = Some p
           \<and> tp_count_of sd (tp_order_counts inp) = 0))"
  using run_on_exchange_le [of b cfg h symbol rotator st xs sd]
    iteration_placement_guard [of sd q p cfg h symbol rotator st inp]
  by blast

theorem take_profit_singleton_witness:
  "run_on_exchange example_config example_helpers ''BTCUSDT'' (Some [''BTCUSDT''])
      (initial_state 60 60) (\<lambda>s. 0)
      [(example_inputs 10 [raw_position ''BTCUSDT'' ''Buy'' 1 100] (Some 1000) full_book, \<lambda>s. 0),
       (example_inputs 100 [raw_position ''BTCUSDT'' ''Buy'' 1 100] (Some 1000) full_book, \<lambda>s. 0)]
      Long \<le> 1
   \<and> (\<exists>d. build_position_details
             (open_position_data
               (example_inputs 10 [raw_position ''BTCUSDT'' ''Buy'' 1 100] (Some 1000) full_book))
           = Inr d
        \<and> pos_qty d ''BTCUSDT'' (entry_of Long) = 1
        \<and> take_profit_target example_helpers ''BTCUSDT'' d (initial_state 60 60)
             (example_inputs 10 [raw_position ''BTCUSDT'' ''Buy'' 1 100] (Some 1000) full_book) Long
           = Some (504 / 5)
        \<and> tp_count_of Long
             (tp_order_counts
               (example_inputs 10 [raw_position ''BTCUSDT'' ''Buy'' 1 100] (Some 1000) full_book))
           = 0)"
proof -
  let ?inp = "example_inputs 10 [raw_position ''BTCUSDT'' ''Buy'' 1 100] (Some 1000) full_book"
  let ?xs = "[(?inp, \<lambda>s. 0),
              (example_inputs 100 [raw_position ''BTCUSDT'' ''Buy'' 1 100] (Some 1000) full_book,
               \<lambda>s. 0)]"
  have start: "\<forall>s. (\<lambda>s::side. 0::nat) s \<le> 1"
    by simp
  have placed_now: "(Long, 1, 504 / 5) \<in> set (tp_placements (events
      (iteration example_config example_helpers ''BTCUSDT'' (Some [''BTCUSDT''])
        (initial_state 60 60) ?inp)))"
    by (simp add: iteration_defs string_defs example_defs tp_placements_def Let_def)
  note t = take_profit_singleton [of "\<lambda>s. 0" example_config example_helpers "''BTCUSDT''"
      "Some [''BTCUSDT'']" "initial_state 60 60" ?xs Long 1 "504 / 5" ?inp]
  have bound: "run_on_exchange example_config example_helpers ''BTCUSDT'' (Some [''BTCUSDT''])
      (initial_state 60 60) (\<lambda>s. 0) ?xs Long \<le> 1"
    using t [THEN conjunct1] start by (rule mp)
  have guard: "\<exists>d. build_position_details (open_position_data ?inp) = Inr d
      \<and> 1 = pos_qty d ''BTCUSDT'' (entry_of Long) \<and> (0::real) < 1
      \<and> take_profit_target example_helpers ''BTCUSDT'' d (initial_state 60 60) ?inp Long
          = Some (504 / 5)
      \<and> tp_count_of Long (tp_order_counts ?inp) = 0"
    using t [THEN conjunct2] placed_now by (rule mp)
  from guard obtain d where "build_position_details (open_position_data ?inp) = Inr d"
    and "pos_qty d ''BTCUSDT'' (entry_of Long) = 1"
    and "take_profit_target example_helpers ''BTCUSDT'' d (initial_state 60 60) ?inp Long
          = Some (504 / 5)"
    and "tp_count_of Long (tp_order_counts ?inp) = 0"
    by metis
  with bound show ?thesis by blast
qed

end
